theory Spec2Isabelle
  imports Main
begin

section \<open>Python values and exceptions\<close>

text \<open>
  The values the module handles are what the JSON codec produces (\<open>None\<close>, booleans,
  integers, strings, lists, dictionaries) and the tuple that \<open>login\<close> builds. A
  dictionary is an association list read through \<open>map_of\<close>. JSON numbers with a
  fraction (Python floats) are left out of the model.
\<close>

datatype pyval =
    PNone
  | PBool bool
  | PInt int
  | PStr string
  | PList "pyval list"
  | PTuple "pyval list"
  | PDict "(string \<times> pyval) list"

text \<open>
  The exceptions that can leave the module: its own two classes (\<open>APIError\<close> with the
  argument it was built with, if any), the built-in ones raised by attribute access,
  subscripting, iteration, name lookup and time conversion, the HTTP client's
  \<open>HTTPError\<close> and \<open>ConnectionError\<close>.
\<close>

datatype py_error =
    LoginFailed
  | APIError "pyval option"
  | HTTPError
  | ConnectionError
  | NameError
  | AttributeError
  | TypeError
  | KeyError
  | ValueError

text \<open>Truth value of an object, as \<open>if error\<close> tests it.\<close>

fun truthy :: "pyval \<Rightarrow> bool" where
  "truthy PNone = False"
| "truthy (PBool b) = b"
| "truthy (PInt n) = (n \<noteq> 0)"
| "truthy (PStr s) = (s \<noteq> [])"
| "truthy (PList xs) = (xs \<noteq> [])"
| "truthy (PTuple xs) = (xs \<noteq> [])"
| "truthy (PDict kvs) = (kvs \<noteq> [])"

text \<open>\<open>kvs.get(k, None)\<close> on a dictionary.\<close>

definition dict_get :: "(string \<times> pyval) list \<Rightarrow> string \<Rightarrow> pyval" where
  "dict_get kvs k = (case map_of kvs k of None \<Rightarrow> PNone | Some v \<Rightarrow> v)"

text \<open>\<open>d.get(k, None)\<close> on any object: only a dictionary has the method.\<close>

fun py_get :: "pyval \<Rightarrow> string \<Rightarrow> py_error + pyval" where
  "py_get (PDict kvs) k = Inr (dict_get kvs k)"
| "py_get _ k = Inl AttributeError"

text \<open>\<open>d[k]\<close> with a string key: a dictionary raises \<open>KeyError\<close> on a missing key,
  every other object raises \<open>TypeError\<close>.\<close>

fun py_getitem :: "pyval \<Rightarrow> string \<Rightarrow> py_error + pyval" where
  "py_getitem (PDict kvs) k = (case map_of kvs k of None \<Rightarrow> Inl KeyError | Some v \<Rightarrow> Inr v)"
| "py_getitem _ k = Inl TypeError"

text \<open>The elements a \<open>for\<close> loop visits: a string yields its characters, a dictionary
  its keys (here in the order of the association list; every loop of the module raises
  on the first key, whichever it is), \<open>None\<close>, booleans and integers are not iterable.\<close>

fun py_iter :: "pyval \<Rightarrow> py_error + pyval list" where
  "py_iter (PList xs) = Inr xs"
| "py_iter (PTuple xs) = Inr xs"
| "py_iter (PStr s) = Inr (map (\<lambda>c. PStr [c]) s)"
| "py_iter (PDict kvs) = Inr (map PStr (remdups (map fst kvs)))"
| "py_iter _ = Inl TypeError"

definition sum_bind :: "'e + 'a \<Rightarrow> ('a \<Rightarrow> 'e + 'b) \<Rightarrow> 'e + 'b" where
  "sum_bind m f = (case m of Inl e \<Rightarrow> Inl e | Inr v \<Rightarrow> f v)"

section \<open>Statements that mutate an object and may raise\<close>

text \<open>
  A statement takes the object to its state after the statement, with the exception
  raised, if any. A sequence of statements stops at the first exception and keeps the
  assignments made before it.
\<close>

type_synonym 's stmt = "'s \<Rightarrow> 's \<times> py_error option"

definition assign :: "('v \<Rightarrow> 's \<Rightarrow> 's) \<Rightarrow> py_error + 'v \<Rightarrow> 's stmt" where
  "assign upd rhs s = (case rhs of Inl e \<Rightarrow> (s, Some e) | Inr v \<Rightarrow> (upd v s, None))"

fun exec :: "'s stmt list \<Rightarrow> 's stmt" where
  "exec [] s = (s, None)"
| "exec (st # sts) s =
     (case st s of (s', Some e) \<Rightarrow> (s', Some e) | (s', None) \<Rightarrow> exec sts s')"

fun for_each :: "('a \<Rightarrow> 's stmt) \<Rightarrow> 'a list \<Rightarrow> 's stmt" where
  "for_each body [] s = (s, None)"
| "for_each body (x # xs) s =
     (case body x s of (s', Some e) \<Rightarrow> (s', Some e) | (s', None) \<Rightarrow> for_each body xs s')"

section \<open>Transport helpers\<close>

definition API_URL :: string where
  "API_URL = ''https://convore.com/api/''"

text \<open>A path segment is a string or an integer; \<open>str\<close> gives its text.\<close>

datatype segment = SegStr string | SegInt int

definition digit_char :: "nat \<Rightarrow> char" where
  "digit_char d = ''0123456789'' ! d"

function str_nat :: "nat \<Rightarrow> string" where
  "str_nat n = (if n < 10 then [digit_char n] else str_nat (n div 10) @ [digit_char (n mod 10)])"
  by pat_completeness auto
termination
  by (relation "measure id") auto

definition str_int :: "int \<Rightarrow> string" where
  "str_int i = (if i < 0 then CHR ''-'' # str_nat (nat (- i)) else str_nat (nat i))"

fun str :: "segment \<Rightarrow> string" where
  "str (SegStr s) = s"
| "str (SegInt i) = str_int i"

text \<open>\<open>sep.join(xs)\<close>\<close>

fun join :: "string \<Rightarrow> string list \<Rightarrow> string" where
  "join sep [] = []"
| "join sep [x] = x"
| "join sep (x # y # ys) = x @ sep @ join sep (y # ys)"

text \<open>
  The HTTP client and the JSON codec are outside the module. A response shows its
  status code and its body. \<open>raise_for_status\<close> raises \<open>HTTPError\<close> on a client or
  server error status (400 to 599) and returns otherwise.
\<close>

record response =
  status_code :: int
  content :: string

definition http_error_status :: "int \<Rightarrow> bool" where
  "http_error_status c = (400 \<le> c \<and> c < 600)"

definition raise_for_status :: "response \<Rightarrow> py_error + unit" where
  "raise_for_status r = (if http_error_status (status_code r) then Inl HTTPError else Inr ())"

text \<open>
  What the module reaches outside itself: \<open>requests.get\<close> and \<open>requests.post\<close>, called
  with a URL and keyword arguments; the codec's \<open>deserialize\<close>; and the module's global
  \<open>auth\<close>, a name that is unbound (\<open>None\<close> here) until \<open>login\<close> binds it.
\<close>

record world =
  requests_get :: "string \<Rightarrow> (string \<times> pyval) list \<Rightarrow> py_error + response"
  requests_post :: "string \<Rightarrow> (string \<times> pyval) list \<Rightarrow> py_error + response"
  deserialize :: "string \<Rightarrow> py_error + pyval"
  auth :: "pyval option"

definition login :: "pyval \<Rightarrow> pyval \<Rightarrow> world \<Rightarrow> world" where
  "login username password w = w\<lparr>auth := Some (PTuple [username, password])\<rparr>"

definition safe_response :: "response \<Rightarrow> pyval \<Rightarrow> py_error + response" where
  "safe_response r error =
     (case raise_for_status r of
        Inr _ \<Rightarrow> Inr r
      | Inl HTTPError \<Rightarrow>
          if status_code r = 401 then Inl LoginFailed
          else if truthy error then Inl (APIError (Some error)) else Inl (APIError None)
      | Inl e \<Rightarrow> Inl e)"

definition get :: "world \<Rightarrow> segment list \<Rightarrow> (string \<times> pyval) list \<Rightarrow> py_error + response" where
  "get w path kwargs =
     (let url = API_URL @ join ''/'' (map str path) @ ''.json'';
          params = dict_get kwargs ''params''
      in case auth w of
           None \<Rightarrow> Inl NameError
         | Some a \<Rightarrow>
             (case requests_get w url [(''params'', params), (''auth'', a)] of
                Inl e \<Rightarrow> Inl e
              | Inr req \<Rightarrow>
                  let error = dict_get kwargs ''error''
                  in safe_response req error))"

definition post :: "world \<Rightarrow> pyval \<Rightarrow> segment list \<Rightarrow> py_error + response" where
  "post w params path =
     (let url = API_URL @ join ''/'' (map str path) @ ''.json''
      in case auth w of
           None \<Rightarrow> Inl NameError
         | Some a \<Rightarrow>
             (case requests_post w url [(''params'', params), (''auth'', a)] of
                Inl e \<Rightarrow> Inl e
              | Inr r \<Rightarrow> safe_response r PNone))"

section \<open>Domain entities\<close>

subsection \<open>User\<close>

record User =
  user_username :: pyval
  user_url :: pyval
  user_id :: pyval
  user_img :: pyval

definition User_init :: User where
  "User_init = \<lparr>user_username = PNone, user_url = PNone, user_id = PNone, user_img = PNone\<rparr>"

definition User_import_from_api :: "User \<Rightarrow> pyval \<Rightarrow> User \<times> py_error option" where
  "User_import_from_api self d = exec
     [assign (\<lambda>v u. u\<lparr>user_username := v\<rparr>) (py_get d ''username''),
      assign (\<lambda>v u. u\<lparr>user_url := v\<rparr>) (py_get d ''url''),
      assign (\<lambda>v u. u\<lparr>user_id := v\<rparr>) (py_get d ''id''),
      assign (\<lambda>v u. u\<lparr>user_img := v\<rparr>) (py_get d ''img'')] self"

subsection \<open>Time stamps\<close>

text \<open>
  \<open>datetime.utcfromtimestamp\<close> of the standard library, on the values of the model:
  an integer (a boolean counts as one) is taken as seconds since 1970-01-01T00:00:00 UTC
  and broken into proleptic Gregorian calendar fields; a year outside 1..9999 raises
  \<open>ValueError\<close>; any other object, \<open>None\<close> included, raises \<open>TypeError\<close>.
\<close>

record datetime =
  year :: int
  month :: int
  day :: int
  hour :: int
  minute :: int
  second :: int
  microsecond :: int

definition civil_from_days :: "int \<Rightarrow> int \<times> int \<times> int" where
  "civil_from_days z0 =
     (let z = z0 + 719468;
          era = z div 146097;
          doe = z mod 146097;
          yoe = (doe - doe div 1460 + doe div 36524 - doe div 146096) div 365;
          doy = doe - (365 * yoe + yoe div 4 - yoe div 100);
          mp = (5 * doy + 2) div 153;
          d = doy - (153 * mp + 2) div 5 + 1;
          m = (if mp < 10 then mp + 3 else mp - 9);
          y = yoe + era * 400 + (if m \<le> 2 then 1 else 0)
      in (y, m, d))"

definition from_epoch_seconds :: "int \<Rightarrow> py_error + datetime" where
  "from_epoch_seconds t =
     (let (y, m, d) = civil_from_days (t div 86400);
          s = t mod 86400
      in if y < 1 \<or> 9999 < y then Inl ValueError
         else Inr \<lparr>year = y, month = m, day = d, hour = s div 3600,
                   minute = (s mod 3600) div 60, second = s mod 60, microsecond = 0\<rparr>)"

fun utcfromtimestamp :: "pyval \<Rightarrow> py_error + datetime" where
  "utcfromtimestamp (PInt t) = from_epoch_seconds t"
| "utcfromtimestamp (PBool b) = from_epoch_seconds (if b then 1 else 0)"
| "utcfromtimestamp _ = Inl TypeError"

subsection \<open>Group\<close>

text \<open>
  A field that \<open>__init__\<close> sets to \<open>None\<close> and decoding sets to an object of the
  module (a date-time, a User, a list of Users) is an option.
\<close>

record Group =
  group_kind :: pyval
  group_members_count :: pyval
  group_name :: pyval
  group_creator :: "User option"
  group_url :: pyval
  group_slug :: pyval
  group_date_latest_message :: "datetime option"
  group_date_created :: "datetime option"
  group_topics_count :: pyval
  group_friends :: "User list option"
  group_unread :: pyval
  group_id :: pyval
  group_joined :: bool

definition Group_init :: Group where
  "Group_init = \<lparr>group_kind = PNone, group_members_count = PNone, group_name = PNone,
     group_creator = None, group_url = PNone, group_slug = PNone,
     group_date_latest_message = None, group_date_created = None,
     group_topics_count = PNone, group_friends = None, group_unread = PNone,
     group_id = PNone, group_joined = False\<rparr>"

text \<open>\<open>k in d\<close> for a string \<open>k\<close>: key membership on a dictionary, element membership
  on a list or tuple, substring test on a string.\<close>

fun is_substring :: "string \<Rightarrow> string \<Rightarrow> bool" where
  "is_substring k [] = (k = [])"
| "is_substring k (c # s) = (take (length k) (c # s) = k \<or> is_substring k s)"

fun py_contains :: "pyval \<Rightarrow> string \<Rightarrow> py_error + bool" where
  "py_contains (PDict kvs) k = Inr (map_of kvs k \<noteq> None)"
| "py_contains (PList xs) k = Inr (PStr k \<in> set xs)"
| "py_contains (PTuple xs) k = Inr (PStr k \<in> set xs)"
| "py_contains (PStr s) k = Inr (is_substring k s)"
| "py_contains _ k = Inl TypeError"

text \<open>\<open>self.creator.import_from_api(v)\<close> (and \<open>self.user\<close> in a Message): the User
  the field holds is decoded in place.\<close>

definition import_child ::
  "('s \<Rightarrow> User option) \<Rightarrow> (User \<Rightarrow> 's \<Rightarrow> 's) \<Rightarrow> py_error + pyval \<Rightarrow> 's stmt" where
  "import_child field upd arg s =
     (case field s of
        None \<Rightarrow> (s, Some AttributeError)
      | Some u \<Rightarrow>
          (case arg of
             Inl e \<Rightarrow> (s, Some e)
           | Inr v \<Rightarrow>
               (case User_import_from_api u v of
                  (u', err) \<Rightarrow> (upd u' s, err))))"

text \<open>The body of the loop over \<open>friend_list\<close>.\<close>

definition append_friend :: "pyval \<Rightarrow> Group stmt" where
  "append_friend friend g =
     (case User_import_from_api User_init friend of
        (u, Some e) \<Rightarrow> (g, Some e)
      | (u, None) \<Rightarrow>
          (case group_friends g of
             None \<Rightarrow> (g, Some AttributeError)
           | Some fs \<Rightarrow> (g\<lparr>group_friends := Some (fs @ [u])\<rparr>, None)))"

definition import_friends :: "pyval \<Rightarrow> Group stmt" where
  "import_friends d g =
     (case py_contains d ''friend_list'' of
        Inl e \<Rightarrow> (g, Some e)
      | Inr False \<Rightarrow> (g, None)
      | Inr True \<Rightarrow>
          (case sum_bind (py_get d ''friend_list'') py_iter of
             Inl e \<Rightarrow> (g, Some e)
           | Inr friends \<Rightarrow> for_each append_friend friends g))"

definition Group_import_from_api :: "Group \<Rightarrow> pyval \<Rightarrow> Group \<times> py_error option" where
  "Group_import_from_api self d = exec
     [assign (\<lambda>v g. g\<lparr>group_kind := v\<rparr>) (py_get d ''kind''),
      assign (\<lambda>v g. g\<lparr>group_members_count := v\<rparr>) (py_get d ''members_count''),
      assign (\<lambda>v g. g\<lparr>group_name := v\<rparr>) (py_get d ''name''),
      assign (\<lambda>v g. g\<lparr>group_url := v\<rparr>) (py_get d ''url''),
      assign (\<lambda>v g. g\<lparr>group_slug := v\<rparr>) (py_get d ''slug''),
      assign (\<lambda>v g. g\<lparr>group_date_latest_message := Some v\<rparr>)
        (sum_bind (py_get d ''date_latest_message'') utcfromtimestamp),
      assign (\<lambda>v g. g\<lparr>group_date_created := Some v\<rparr>)
        (sum_bind (py_get d ''date_created'') utcfromtimestamp),
      assign (\<lambda>v g. g\<lparr>group_topics_count := v\<rparr>) (py_get d ''topics_count''),
      assign (\<lambda>v g. g\<lparr>group_unread := v\<rparr>) (py_get d ''unread''),
      assign (\<lambda>v g. g\<lparr>group_id := v\<rparr>) (py_get d ''id''),
      assign (\<lambda>v g. g\<lparr>group_creator := Some v\<rparr>) (Inr User_init),
      import_child group_creator (\<lambda>u g. g\<lparr>group_creator := Some u\<rparr>) (py_get d ''creator''),
      assign (\<lambda>v g. g\<lparr>group_friends := Some v\<rparr>) (Inr []),
      import_friends d] self"

subsection \<open>Topic, Message, Category\<close>

record Topic =
  topic_id :: pyval
  topic_name :: pyval
  topic_slug :: pyval
  topic_url :: pyval
  topic_message_count :: pyval
  topic_unread :: pyval
  topic_date_created :: "datetime option"
  topic_date_latest_message :: "datetime option"
  topic_creator :: "User option"

definition Topic_init :: Topic where
  "Topic_init = \<lparr>topic_id = PNone, topic_name = PNone, topic_slug = PNone, topic_url = PNone,
     topic_message_count = PNone, topic_unread = PNone, topic_date_created = None,
     topic_date_latest_message = None, topic_creator = None\<rparr>"

definition Topic_import_from_api :: "Topic \<Rightarrow> pyval \<Rightarrow> Topic \<times> py_error option" where
  "Topic_import_from_api self data = exec
     [assign (\<lambda>v t. t\<lparr>topic_id := v\<rparr>) (py_get data ''id''),
      assign (\<lambda>v t. t\<lparr>topic_name := v\<rparr>) (py_get data ''name''),
      assign (\<lambda>v t. t\<lparr>topic_slug := v\<rparr>) (py_get data ''slug''),
      assign (\<lambda>v t. t\<lparr>topic_url := v\<rparr>) (py_get data ''url''),
      assign (\<lambda>v t. t\<lparr>topic_message_count := v\<rparr>) (py_get data ''message_count''),
      assign (\<lambda>v t. t\<lparr>topic_unread := v\<rparr>) (py_get data ''unread''),
      assign (\<lambda>v t. t\<lparr>topic_date_created := Some v\<rparr>)
        (sum_bind (py_get data ''date_created'') utcfromtimestamp),
      assign (\<lambda>v t. t\<lparr>topic_date_latest_message := Some v\<rparr>)
        (sum_bind (py_get data ''date_latest_message'') utcfromtimestamp),
      assign (\<lambda>v t. t\<lparr>topic_creator := Some v\<rparr>) (Inr User_init),
      import_child topic_creator (\<lambda>u t. t\<lparr>topic_creator := Some u\<rparr>) (py_get data ''creator'')]
     self"

record Message =
  message_id :: pyval
  message_message :: pyval
  message_date_created :: "datetime option"
  message_user :: "User option"

definition Message_init :: Message where
  "Message_init = \<lparr>message_id = PNone, message_message = PNone,
     message_date_created = None, message_user = None\<rparr>"

definition Message_import_from_api :: "Message \<Rightarrow> pyval \<Rightarrow> Message \<times> py_error option" where
  "Message_import_from_api self data = exec
     [assign (\<lambda>v m. m\<lparr>message_id := v\<rparr>) (py_get data ''id''),
      assign (\<lambda>v m. m\<lparr>message_message := v\<rparr>) (py_get data ''message''),
      assign (\<lambda>v m. m\<lparr>message_date_created := Some v\<rparr>)
        (sum_bind (py_get data ''date_created'') utcfromtimestamp),
      assign (\<lambda>v m. m\<lparr>message_user := Some v\<rparr>) (Inr User_init),
      import_child message_user (\<lambda>u m. m\<lparr>message_user := Some u\<rparr>) (py_get data ''user'')]
     self"

text \<open>\<open>groups\<close> is set to \<open>None\<close> by \<open>__init__\<close> and never assigned again.\<close>

record Category =
  category_groups_count :: pyval
  category_slug :: pyval
  category_name :: pyval
  category_groups :: pyval

definition Category_init :: Category where
  "Category_init = \<lparr>category_groups_count = PNone, category_slug = PNone,
     category_name = PNone, category_groups = PNone\<rparr>"

definition Category_import_from_api :: "Category \<Rightarrow> pyval \<Rightarrow> Category \<times> py_error option" where
  "Category_import_from_api self d = exec
     [assign (\<lambda>v c. c\<lparr>category_groups_count := v\<rparr>) (py_get d ''groups_count''),
      assign (\<lambda>v c. c\<lparr>category_slug := v\<rparr>) (py_get d ''slug''),
      assign (\<lambda>v c. c\<lparr>category_name := v\<rparr>) (py_get d ''name'')] self"

section \<open>Resource collections\<close>

text \<open>The object a method call leaves behind when it returns; the exception when it
  raises, which the caller does not catch.\<close>

definition returned :: "'s \<times> py_error option \<Rightarrow> py_error + 's" where
  "returned r = (case r of (s, None) \<Rightarrow> Inr s | (s, Some e) \<Rightarrow> Inl e)"

text \<open>A loop that builds one entity per element and appends it to the result list.\<close>

fun append_each :: "('a \<Rightarrow> py_error + 'b) \<Rightarrow> 'a list \<Rightarrow> 'b list \<Rightarrow> py_error + 'b list" where
  "append_each f [] acc = Inr acc"
| "append_each f (x # xs) acc =
     (case f x of Inl e \<Rightarrow> Inl e | Inr y \<Rightarrow> append_each f xs (acc @ [y]))"

text \<open>\<open>deserialize(response.content)[key]\<close>\<close>

definition envelope :: "world \<Rightarrow> response \<Rightarrow> string \<Rightarrow> py_error + pyval" where
  "envelope w resp key = sum_bind (deserialize w (content resp)) (\<lambda>body. py_getitem body key)"

definition get_user_groups :: "world \<Rightarrow> py_error + Group list" where
  "get_user_groups w =
     sum_bind (get w [SegStr ''groups''] []) (\<lambda>resp.
     sum_bind (envelope w resp ''groups'') (\<lambda>v.
     sum_bind (py_iter v) (\<lambda>items.
       append_each
         (\<lambda>item. sum_bind (returned (Group_import_from_api Group_init item))
            (\<lambda>group. Inr (group\<lparr>group_joined := True\<rparr>)))
         items [])))"

definition get_group :: "world \<Rightarrow> segment \<Rightarrow> py_error + Group" where
  "get_group w gid =
     sum_bind (get w [SegStr ''groups'', gid] []) (\<lambda>resp.
     sum_bind (envelope w resp ''group'') (\<lambda>v.
       returned (Group_import_from_api Group_init v)))"

definition get_group_members :: "world \<Rightarrow> segment \<Rightarrow> py_error + User list" where
  "get_group_members w gid =
     sum_bind (get w [SegStr ''groups'', gid, SegStr ''members''] []) (\<lambda>resp.
     sum_bind (envelope w resp ''members'') (\<lambda>v.
     sum_bind (py_iter v) (\<lambda>items.
       append_each
         (\<lambda>member. sum_bind (py_get member ''user'')
            (\<lambda>u. returned (User_import_from_api User_init u)))
         items [])))"

definition get_group_online_members :: "world \<Rightarrow> segment \<Rightarrow> py_error + User list" where
  "get_group_online_members w gid =
     sum_bind (get w [SegStr ''groups'', gid, SegStr ''online''] []) (\<lambda>resp.
     sum_bind (envelope w resp ''online'') (\<lambda>v.
     sum_bind (py_iter v) (\<lambda>items.
       append_each (\<lambda>online. returned (User_import_from_api User_init online)) items [])))"

definition get_group_topics :: "world \<Rightarrow> segment \<Rightarrow> py_error + Topic list" where
  "get_group_topics w gid =
     sum_bind (get w [SegStr ''groups'', gid, SegStr ''topics''] []) (\<lambda>resp.
     sum_bind (envelope w resp ''topics'') (\<lambda>v.
     sum_bind (py_iter v) (\<lambda>items.
       append_each (\<lambda>item. returned (Topic_import_from_api Topic_init item)) items [])))"

definition get_topic :: "world \<Rightarrow> segment \<Rightarrow> py_error + Topic" where
  "get_topic w tid =
     sum_bind (get w [SegStr ''topics'', tid] []) (\<lambda>resp.
     sum_bind (envelope w resp ''topic'') (\<lambda>v.
       returned (Topic_import_from_api Topic_init v)))"

definition get_messages :: "world \<Rightarrow> segment \<Rightarrow> py_error + Message list" where
  "get_messages w tid =
     sum_bind (get w [SegStr ''topics'', tid, SegStr ''messages''] []) (\<lambda>resp.
     sum_bind (envelope w resp ''messages'') (\<lambda>v.
     sum_bind (py_iter v) (\<lambda>items.
       append_each (\<lambda>item. returned (Message_import_from_api Message_init item)) items [])))"

definition get_user :: "world \<Rightarrow> segment \<Rightarrow> py_error + User" where
  "get_user w uid =
     sum_bind (get w [SegStr ''users'', uid] []) (\<lambda>resp.
     sum_bind (envelope w resp ''user'') (\<lambda>v.
       returned (User_import_from_api User_init v)))"

section \<open>Specification-side definitions and sample inputs\<close>

text \<open>
  The resource URL as the specification words it: the base URL, the segments' texts
  with a slash in front of every segment but the first, the suffix.
\<close>

definition resource_url :: "segment list \<Rightarrow> string" where
  "resource_url path =
     ''https://convore.com/api/'' @
     (case map str path of [] \<Rightarrow> [] | s # ss \<Rightarrow> s @ concat (map (\<lambda>t. CHR ''/'' # t) ss)) @
     ''.json''"

text \<open>A logged-in world whose server answers every request with one status and body.\<close>

definition fixed_world :: "int \<Rightarrow> string \<Rightarrow> (string \<Rightarrow> py_error + pyval) \<Rightarrow> world" where
  "fixed_world code body codec =
     \<lparr>requests_get = (\<lambda>url kw. Inr \<lparr>status_code = code, content = body\<rparr>),
      requests_post = (\<lambda>url kw. Inr \<lparr>status_code = code, content = body\<rparr>),
      deserialize = codec,
      auth = Some (PTuple [PStr ''user'', PStr ''secret''])\<rparr>"

text \<open>Whether a decoded value is a mapping, and the User that a fresh User object
  becomes when it decodes a value.\<close>

fun is_dict :: "pyval \<Rightarrow> bool" where
  "is_dict (PDict kvs) = True"
| "is_dict _ = False"

definition user_of :: "pyval \<Rightarrow> User" where
  "user_of d = fst (User_import_from_api User_init d)"

text \<open>A mapping with every binding of one key removed.\<close>

definition without :: "string \<Rightarrow> (string \<times> pyval) list \<Rightarrow> (string \<times> pyval) list" where
  "without k kvs = filter (\<lambda>p. fst p \<noteq> k) kvs"

text \<open>A decoded group mapping with the keys the decoder needs.\<close>

definition sample_group :: "(string \<times> pyval) list" where
  "sample_group =
     [(''id'', PInt 3), (''slug'', PStr ''lobby''), (''name'', PStr ''Lobby''),
      (''members_count'', PInt 12), (''topics_count'', PInt 4),
      (''date_created'', PInt 0), (''date_latest_message'', PInt 86400),
      (''creator'', PDict [(''username'', PStr ''ann''), (''id'', PInt 7)]),
      (''friend_list'', PList [PDict [(''username'', PStr ''bob'')], PDict [(''id'', PInt 9)]])]"

text \<open>
  Modelled from the spec: the module has no serializer; the specification speaks of
  re-serializing a decoded Group without fixing the format. The model writes each
  field that holds a decoded JSON value back under the key it was read from; the time
  stamps and the nested entities, whose serialized form the specification does not fix,
  are left out.
\<close>

definition Group_to_mapping :: "Group \<Rightarrow> (string \<times> pyval) list" where
  "Group_to_mapping g =
     [(''kind'', group_kind g), (''members_count'', group_members_count g),
      (''name'', group_name g), (''url'', group_url g), (''slug'', group_slug g),
      (''topics_count'', group_topics_count g), (''unread'', group_unread g),
      (''id'', group_id g)]"

text \<open>The request for a path is answered without an HTTP error and the body decodes to
  the mapping \<open>kvs\<close>.\<close>

definition answers :: "world \<Rightarrow> segment list \<Rightarrow> (string \<times> pyval) list \<Rightarrow> bool" where
  "answers w path kvs =
     (case get w path [] of
        Inl e \<Rightarrow> False
      | Inr resp \<Rightarrow> deserialize w (content resp) = Inr (PDict kvs))"

text \<open>Two decoded message mappings.\<close>

definition sample_messages :: "pyval list" where
  "sample_messages =
     [PDict [(''id'', PInt 1), (''message'', PStr ''hi''), (''date_created'', PInt 0),
             (''user'', PDict [(''id'', PInt 1), (''username'', PStr ''a'')])],
      PDict [(''id'', PInt 2), (''message'', PStr ''bye''), (''date_created'', PInt 60),
             (''user'', PDict [(''id'', PInt 2), (''username'', PStr ''b'')])]]"

text \<open>A response body with the envelope keys of five operations; its group mappings
  carry a \<open>joined\<close> key that contradicts what the operations set.\<close>

definition sample_body :: "(string \<times> pyval) list" where
  "sample_body =
     [(''groups'', PList [PDict ((''joined'', PBool False) # sample_group)]),
      (''group'', PDict ((''joined'', PBool True) # sample_group)),
      (''members'', PList [PDict [(''user'', PDict [(''id'', PInt 1), (''username'', PStr ''a'')])],
                           PDict [(''user'', PDict [(''id'', PInt 2), (''username'', PStr ''b'')])]]),
      (''user'', PDict [(''id'', PInt 1), (''username'', PStr ''a'')]),
      (''messages'', PList sample_messages)]"

definition sample_world :: world where
  "sample_world = fixed_world 200 ''{}'' (\<lambda>s. Inr (PDict sample_body))"

text \<open>A world whose server answers with an empty JSON object.\<close>

definition empty_body_world :: world where
  "empty_body_world = fixed_world 200 ''{}'' (\<lambda>s. Inr (PDict []))"

section \<open>Transport helpers: verified properties\<close>

lemma safe_response_eq:
  "safe_response r error =
     (if status_code r = 401 then Inl LoginFailed
      else if http_error_status (status_code r) then
        Inl (APIError (if truthy error then Some error else None))
      else Inr r)"
  by (simp add: safe_response_def raise_for_status_def http_error_status_def)

lemma get_eq:
  "auth w = Some a \<Longrightarrow>
   get w path kwargs =
     sum_bind (requests_get w (API_URL @ join ''/'' (map str path) @ ''.json'')
                 [(''params'', dict_get kwargs ''params''), (''auth'', a)])
       (\<lambda>r. safe_response r (dict_get kwargs ''error''))"
  by (simp add: get_def sum_bind_def Let_def split: sum.splits)

lemma post_eq:
  "auth w = Some a \<Longrightarrow>
   post w params path =
     sum_bind (requests_post w (API_URL @ join ''/'' (map str path) @ ''.json'')
                 [(''params'', params), (''auth'', a)])
       (\<lambda>r. safe_response r PNone)"
  by (simp add: post_def sum_bind_def Let_def split: sum.splits)

text \<open>
  C1. Once the HTTP client has answered a \<open>get\<close> or a \<open>post\<close> with a response \<open>r\<close>:
  status 401 gives \<open>LoginFailed\<close>, whatever error message the caller passed; any other
  error status gives \<open>APIError\<close>, built with the caller's message when \<open>get\<close> was given
  one that counts as true and with no argument otherwise (\<open>post\<close> takes no message);
  any other status returns \<open>r\<close> itself.
\<close>

theorem transport_status_mapping:
  assumes "auth w = Some a"
  shows "(requests_get w (API_URL @ join ''/'' (map str path) @ ''.json'')
             [(''params'', dict_get kwargs ''params''), (''auth'', a)] = Inr r \<longrightarrow>
          get w path kwargs =
            (if status_code r = 401 then Inl LoginFailed
             else if http_error_status (status_code r) then
               Inl (APIError (if truthy (dict_get kwargs ''error'')
                              then Some (dict_get kwargs ''error'') else None))
             else Inr r)) \<and>
         (requests_post w (API_URL @ join ''/'' (map str path) @ ''.json'')
             [(''params'', params), (''auth'', a)] = Inr r \<longrightarrow>
          post w params path =
            (if status_code r = 401 then Inl LoginFailed
             else if http_error_status (status_code r) then Inl (APIError None)
             else Inr r))"
  using assms by (simp add: get_eq post_eq sum_bind_def safe_response_eq)

theorem transport_status_mapping_witness:
  "get (fixed_world 500 [] (\<lambda>s. Inl ValueError)) [SegStr ''groups'']
       [(''error'', PStr ''no groups'')] = Inl (APIError (Some (PStr ''no groups''))) \<and>
   post (fixed_world 500 [] (\<lambda>s. Inl ValueError)) PNone [SegStr ''groups'']
     = Inl (APIError None) \<and>
   get (fixed_world 401 [] (\<lambda>s. Inl ValueError)) [SegStr ''groups'']
       [(''error'', PStr ''no groups'')] = Inl LoginFailed \<and>
   get (fixed_world 200 ''{}'' (\<lambda>s. Inl ValueError)) [SegStr ''groups''] []
     = Inr \<lparr>status_code = 200, content = ''{}''\<rparr>"
  using
    transport_status_mapping [of "fixed_world 500 [] (\<lambda>s. Inl ValueError)"
      "PTuple [PStr ''user'', PStr ''secret'']" "[SegStr ''groups'']"
      "[(''error'', PStr ''no groups'')]" "\<lparr>status_code = 500, content = []\<rparr>" PNone]
    transport_status_mapping [of "fixed_world 401 [] (\<lambda>s. Inl ValueError)"
      "PTuple [PStr ''user'', PStr ''secret'']" "[SegStr ''groups'']"
      "[(''error'', PStr ''no groups'')]" "\<lparr>status_code = 401, content = []\<rparr>" PNone]
    transport_status_mapping [of "fixed_world 200 ''{}'' (\<lambda>s. Inl ValueError)"
      "PTuple [PStr ''user'', PStr ''secret'']" "[SegStr ''groups'']"
      "[]" "\<lparr>status_code = 200, content = ''{}''\<rparr>" PNone]
  by (simp add: fixed_world_def http_error_status_def dict_get_def)

lemma join_slash:
  "join ''/'' (x # xs) = x @ concat (map (\<lambda>t. CHR ''/'' # t) xs)"
  by (induction xs arbitrary: x) simp_all

lemma resource_url_eq:
  "API_URL @ join ''/'' (map str path) @ ''.json'' = resource_url path"
  by (cases path) (simp_all add: resource_url_def API_URL_def join_slash)

text \<open>
  C8. For every sequence of path segments, the URL that \<open>get\<close> and \<open>post\<close> hand to the
  HTTP client is the base URL, then the segments' texts separated by slashes, then
  \<open>.json\<close>. (Before \<open>login\<close> the global \<open>auth\<close> is unbound and both raise \<open>NameError\<close>.)
\<close>

theorem transport_url:
  "get w path kwargs =
     (case auth w of
        None \<Rightarrow> Inl NameError
      | Some a \<Rightarrow>
          sum_bind (requests_get w (resource_url path)
                      [(''params'', dict_get kwargs ''params''), (''auth'', a)])
            (\<lambda>r. safe_response r (dict_get kwargs ''error''))) \<and>
   post w params path =
     (case auth w of
        None \<Rightarrow> Inl NameError
      | Some a \<Rightarrow>
          sum_bind (requests_post w (resource_url path) [(''params'', params), (''auth'', a)])
            (\<lambda>r. safe_response r PNone))"
proof (cases "auth w")
  case None
  then show ?thesis by (simp add: get_def post_def)
next
  case (Some a)
  then show ?thesis by (simp add: get_eq post_eq resource_url_eq)
qed

text \<open>
  \<open>post\<close> is \<open>get\<close> called with the parameters and no error message, with the HTTP
  client's \<open>post\<close> in the place of its \<open>get\<close>: the same URL, the same \<open>params\<close>
  keyword, the same mapping of statuses to failures. Where the client puts what it
  receives under \<open>params\<close>, in the query string or in the body of the request, is
  decided inside the client and not by the module.
\<close>

lemma post_is_get_with_post_method:
  "post w params path = get (w\<lparr>requests_get := requests_post w\<rparr>) path [(''params'', params)]"
  by (simp add: post_def get_def dict_get_def Let_def split: option.splits sum.splits)

section \<open>Entity decoding: how each operation runs on a mapping\<close>

lemma assign_Inr [simp]: "assign upd (Inr v) s = (upd v s, None)"
  by (simp add: assign_def)

lemma assign_Inl [simp]: "assign upd (Inl e) s = (s, Some e)"
  by (simp add: assign_def)

lemma result_cases_id [simp]:
  "(case r of (s', None) \<Rightarrow> (s', None) | (s', Some e) \<Rightarrow> (s', Some e)) = r"
  by (simp split: prod.splits option.splits)

lemma exec_single [simp]: "exec [st] s = st s"
  by simp

lemma User_import_dict:
  "User_import_from_api self (PDict kvs) =
     (self\<lparr>user_username := dict_get kvs ''username'', user_url := dict_get kvs ''url'',
           user_id := dict_get kvs ''id'', user_img := dict_get kvs ''img''\<rparr>, None)"
  by (simp add: User_import_from_api_def)

lemma User_import_not_dict:
  "\<not> is_dict d \<Longrightarrow> User_import_from_api self d = (self, Some AttributeError)"
  by (cases d) (simp_all add: User_import_from_api_def)

lemma Category_import_dict:
  "Category_import_from_api self (PDict kvs) =
     (self\<lparr>category_groups_count := dict_get kvs ''groups_count'',
           category_slug := dict_get kvs ''slug'', category_name := dict_get kvs ''name''\<rparr>, None)"
  by (simp add: Category_import_from_api_def)

lemma import_child_fresh:
  "field s = Some u \<Longrightarrow>
   import_child field upd (Inr v) s =
     (if is_dict v then (upd (fst (User_import_from_api u v)) s, None)
      else (upd u s, Some AttributeError))"
  by (cases v) (simp_all add: import_child_def User_import_from_api_def)

lemma Group_import_dict:
  "Group_import_from_api self (PDict kvs) =
     (let g5 = self\<lparr>group_kind := dict_get kvs ''kind'',
                     group_members_count := dict_get kvs ''members_count'',
                     group_name := dict_get kvs ''name'',
                     group_url := dict_get kvs ''url'',
                     group_slug := dict_get kvs ''slug''\<rparr>
      in case utcfromtimestamp (dict_get kvs ''date_latest_message'') of
           Inl e \<Rightarrow> (g5, Some e)
         | Inr t1 \<Rightarrow>
            (case utcfromtimestamp (dict_get kvs ''date_created'') of
               Inl e \<Rightarrow> (g5\<lparr>group_date_latest_message := Some t1\<rparr>, Some e)
             | Inr t2 \<Rightarrow>
                (let g10 = g5\<lparr>group_date_latest_message := Some t1,
                                group_date_created := Some t2,
                                group_topics_count := dict_get kvs ''topics_count'',
                                group_unread := dict_get kvs ''unread'',
                                group_id := dict_get kvs ''id''\<rparr>
                 in if is_dict (dict_get kvs ''creator'')
                    then import_friends (PDict kvs)
                           (g10\<lparr>group_creator := Some (user_of (dict_get kvs ''creator'')),
                                 group_friends := Some []\<rparr>)
                    else (g10\<lparr>group_creator := Some User_init\<rparr>, Some AttributeError))))"
  by (simp add: Group_import_from_api_def sum_bind_def import_child_fresh user_of_def Let_def
      split: sum.splits)


lemma for_each_append_friend:
  "group_friends g = Some fs \<Longrightarrow> \<forall>x\<in>set xs. is_dict x \<Longrightarrow>
   for_each append_friend xs g = (g\<lparr>group_friends := Some (fs @ map user_of xs)\<rparr>, None)"
proof (induction xs arbitrary: g fs)
  case Nil
  then show ?case by simp
next
  case (Cons x xs)
  from Cons.prems obtain kvs where x: "x = PDict kvs" by (cases x) simp_all
  have step: "append_friend x g = (g\<lparr>group_friends := Some (fs @ [user_of x])\<rparr>, None)"
    using Cons.prems(1) by (simp add: append_friend_def x User_import_dict user_of_def)
  have "for_each append_friend xs (g\<lparr>group_friends := Some (fs @ [user_of x])\<rparr>) =
          (g\<lparr>group_friends := Some ((fs @ [user_of x]) @ map user_of xs)\<rparr>, None)"
    using Cons.IH [of "g\<lparr>group_friends := Some (fs @ [user_of x])\<rparr>" "fs @ [user_of x]"]
      Cons.prems(2) by simp
  with step show ?case by simp
qed

lemma import_friends_absent:
  "map_of kvs ''friend_list'' = None \<Longrightarrow> import_friends (PDict kvs) g = (g, None)"
  by (simp add: import_friends_def)

lemma import_friends_list:
  "map_of kvs ''friend_list'' = Some (PList us) \<Longrightarrow> \<forall>u\<in>set us. is_dict u \<Longrightarrow>
   group_friends g = Some fs \<Longrightarrow>
   import_friends (PDict kvs) g = (g\<lparr>group_friends := Some (fs @ map user_of us)\<rparr>, None)"
  by (simp add: import_friends_def sum_bind_def dict_get_def for_each_append_friend)

lemma Topic_import_dict:
  "Topic_import_from_api self (PDict kvs) =
     (let t6 = self\<lparr>topic_id := dict_get kvs ''id'',
                     topic_name := dict_get kvs ''name'',
                     topic_slug := dict_get kvs ''slug'',
                     topic_url := dict_get kvs ''url'',
                     topic_message_count := dict_get kvs ''message_count'',
                     topic_unread := dict_get kvs ''unread''\<rparr>
      in case utcfromtimestamp (dict_get kvs ''date_created'') of
           Inl e \<Rightarrow> (t6, Some e)
         | Inr t1 \<Rightarrow>
            (case utcfromtimestamp (dict_get kvs ''date_latest_message'') of
               Inl e \<Rightarrow> (t6\<lparr>topic_date_created := Some t1\<rparr>, Some e)
             | Inr t2 \<Rightarrow>
                 if is_dict (dict_get kvs ''creator'')
                 then (t6\<lparr>topic_date_created := Some t1, topic_date_latest_message := Some t2,
                           topic_creator := Some (user_of (dict_get kvs ''creator''))\<rparr>, None)
                 else (t6\<lparr>topic_date_created := Some t1, topic_date_latest_message := Some t2,
                           topic_creator := Some User_init\<rparr>, Some AttributeError)))"
  by (simp add: Topic_import_from_api_def sum_bind_def import_child_fresh user_of_def Let_def
      split: sum.splits)

lemma Message_import_dict:
  "Message_import_from_api self (PDict kvs) =
     (let m2 = self\<lparr>message_id := dict_get kvs ''id'',
                     message_message := dict_get kvs ''message''\<rparr>
      in case utcfromtimestamp (dict_get kvs ''date_created'') of
           Inl e \<Rightarrow> (m2, Some e)
         | Inr t1 \<Rightarrow>
             if is_dict (dict_get kvs ''user'')
             then (m2\<lparr>message_date_created := Some t1,
                       message_user := Some (user_of (dict_get kvs ''user''))\<rparr>, None)
             else (m2\<lparr>message_date_created := Some t1,
                       message_user := Some User_init\<rparr>, Some AttributeError))"
  by (simp add: Message_import_from_api_def sum_bind_def import_child_fresh user_of_def Let_def
      split: sum.splits)

lemma Group_import_not_dict:
  "\<not> is_dict d \<Longrightarrow> Group_import_from_api self d = (self, Some AttributeError)"
  by (cases d) (simp_all add: Group_import_from_api_def)

lemma Topic_import_not_dict:
  "\<not> is_dict d \<Longrightarrow> Topic_import_from_api self d = (self, Some AttributeError)"
  by (cases d) (simp_all add: Topic_import_from_api_def)

lemma Message_import_not_dict:
  "\<not> is_dict d \<Longrightarrow> Message_import_from_api self d = (self, Some AttributeError)"
  by (cases d) (simp_all add: Message_import_from_api_def)

lemma Category_import_not_dict:
  "\<not> is_dict d \<Longrightarrow> Category_import_from_api self d = (self, Some AttributeError)"
  by (cases d) (simp_all add: Category_import_from_api_def)

lemma user_of_dict:
  "user_of (PDict kvs) =
     \<lparr>user_username = dict_get kvs ''username'', user_url = dict_get kvs ''url'',
      user_id = dict_get kvs ''id'', user_img = dict_get kvs ''img''\<rparr>"
  by (simp add: user_of_def User_import_dict User_init_def)

lemma dict_get_absent: "map_of kvs k = None \<Longrightarrow> dict_get kvs k = PNone"
  by (simp add: dict_get_def)

lemma dict_get_present: "map_of kvs k = Some v \<Longrightarrow> dict_get kvs k = v"
  by (simp add: dict_get_def)

lemma map_of_without:
  "map_of (without k kvs) k' = (if k' = k then None else map_of kvs k')"
  by (induction kvs) (auto simp: without_def)

lemma dict_get_without: "k' \<noteq> k \<Longrightarrow> dict_get (without k kvs) k' = dict_get kvs k'"
  by (simp add: dict_get_def map_of_without)

text \<open>The loop over the friends changes the friends field only.\<close>

lemma append_friend_frame:
  "\<exists>fs. fst (append_friend x g) = g\<lparr>group_friends := fs\<rparr>"
proof (cases "User_import_from_api User_init x")
  case (Pair u err)
  show ?thesis
  proof (cases err)
    case None
    show ?thesis
    proof (cases "group_friends g")
      case None
      with Pair \<open>err = None\<close> have "fst (append_friend x g) = g\<lparr>group_friends := group_friends g\<rparr>"
        by (simp add: append_friend_def)
      then show ?thesis by blast
    next
      case (Some fs)
      with Pair \<open>err = None\<close> have "fst (append_friend x g) = g\<lparr>group_friends := Some (fs @ [u])\<rparr>"
        by (simp add: append_friend_def)
      then show ?thesis by blast
    qed
  next
    case (Some e)
    with Pair have "fst (append_friend x g) = g\<lparr>group_friends := group_friends g\<rparr>"
      by (simp add: append_friend_def)
    then show ?thesis by blast
  qed
qed

lemma for_each_append_friend_frame:
  "\<exists>fs. fst (for_each append_friend xs g) = g\<lparr>group_friends := fs\<rparr>"
proof (induction xs arbitrary: g)
  case Nil
  have "fst (for_each append_friend [] g) = g\<lparr>group_friends := group_friends g\<rparr>" by simp
  then show ?case by blast
next
  case (Cons x xs)
  obtain g1 err where step: "append_friend x g = (g1, err)" by (cases "append_friend x g")
  from append_friend_frame [of x g] step obtain fs1 where g1: "g1 = g\<lparr>group_friends := fs1\<rparr>"
    by auto
  show ?case
  proof (cases err)
    case None
    from Cons.IH [of g1] obtain fs where "fst (for_each append_friend xs g1) = g1\<lparr>group_friends := fs\<rparr>"
      by blast
    with step None g1 have "fst (for_each append_friend (x # xs) g) = g\<lparr>group_friends := fs\<rparr>"
      by simp
    then show ?thesis by blast
  next
    case (Some e)
    with step g1 have "fst (for_each append_friend (x # xs) g) = g\<lparr>group_friends := fs1\<rparr>"
      by simp
    then show ?thesis by blast
  qed
qed

lemma import_friends_frame:
  "\<exists>fs. fst (import_friends d g) = g\<lparr>group_friends := fs\<rparr>"
proof -
  have same: "g = g\<lparr>group_friends := group_friends g\<rparr>" by simp
  show ?thesis
  proof (cases "py_contains d ''friend_list''")
    case (Inl e)
    then have "fst (import_friends d g) = g" by (simp add: import_friends_def)
    with same show ?thesis by metis
  next
    case (Inr b)
    show ?thesis
    proof (cases b)
      case False
      with Inr have "fst (import_friends d g) = g" by (simp add: import_friends_def)
      with same show ?thesis by metis
    next
      case True
      show ?thesis
      proof (cases "sum_bind (py_get d ''friend_list'') py_iter")
        case (Inl e)
        with Inr True have "fst (import_friends d g) = g" by (simp add: import_friends_def)
        with same show ?thesis by metis
      next
        case (Inr xs)
        with \<open>py_contains d ''friend_list'' = Inr b\<close> True
        have "import_friends d g = for_each append_friend xs g"
          by (simp add: import_friends_def)
        then show ?thesis using for_each_append_friend_frame [of xs g] by simp
      qed
    qed
  qed
qed

lemma Group_import_joined:
  "group_joined (fst (Group_import_from_api self d)) = group_joined self"
proof (cases d)
  case (PDict kvs)
  have fr: "group_joined (fst (import_friends (PDict kvs) g)) = group_joined g" for g
    using import_friends_frame [of "PDict kvs" g] by auto
  show ?thesis
    unfolding PDict Group_import_dict
    by (simp add: Let_def fr split: sum.splits)
qed (simp_all add: Group_import_not_dict)

lemma for_each_append_friend_error:
  "group_friends g = Some fs \<Longrightarrow>
   snd (for_each append_friend xs g) = (if \<forall>x\<in>set xs. is_dict x then None else Some AttributeError)"
proof (induction xs arbitrary: g fs)
  case Nil
  then show ?case by simp
next
  case (Cons x xs)
  show ?case
  proof (cases "is_dict x")
    case True
    then obtain kvs where x: "x = PDict kvs" by (cases x) simp_all
    have step: "append_friend x g = (g\<lparr>group_friends := Some (fs @ [user_of x])\<rparr>, None)"
      using Cons.prems by (simp add: append_friend_def x User_import_dict user_of_def)
    show ?thesis
      using Cons.IH [of "g\<lparr>group_friends := Some (fs @ [user_of x])\<rparr>" "fs @ [user_of x]"] step True
      by simp
  next
    case False
    then have "append_friend x g = (g, Some AttributeError)"
      by (simp add: append_friend_def User_import_not_dict)
    with False show ?thesis by simp
  qed
qed

lemma import_friends_cong:
  "map_of kvs ''friend_list'' = map_of kvs' ''friend_list'' \<Longrightarrow>
   import_friends (PDict kvs) g = import_friends (PDict kvs') g"
  by (cases "map_of kvs' ''friend_list''") (simp_all add: import_friends_def dict_get_def)

lemma import_friends_error_cong:
  assumes "group_friends g \<noteq> None" and "group_friends g' \<noteq> None"
  shows "snd (import_friends d g) = snd (import_friends d g')"
proof (cases "py_contains d ''friend_list''")
  case (Inl e)
  then show ?thesis by (simp add: import_friends_def)
next
  case (Inr b)
  from assms obtain fs fs' where fs: "group_friends g = Some fs" "group_friends g' = Some fs'"
    by auto
  show ?thesis
  proof (cases "sum_bind (py_get d ''friend_list'') py_iter")
    case (Inl e)
    with Inr show ?thesis by (cases b) (simp_all add: import_friends_def)
  next
    case (Inr xs)
    with \<open>py_contains d ''friend_list'' = Inr b\<close> show ?thesis
      using for_each_append_friend_error [OF fs(1), of xs]
        for_each_append_friend_error [OF fs(2), of xs]
      by (cases b) (simp_all add: import_friends_def)
  qed
qed

lemma Group_import_cong:
  assumes "\<forall>k. k \<noteq> ''joined'' \<longrightarrow> map_of kvs k = map_of kvs' k"
  shows "Group_import_from_api self (PDict kvs) = Group_import_from_api self (PDict kvs')"
proof -
  have m: "map_of kvs k = map_of kvs' k" if "k \<noteq> ''joined''" for k
    using assms that by blast
  have dg: "dict_get kvs k = dict_get kvs' k" if "k \<noteq> ''joined''" for k
    unfolding dict_get_def using m [OF that] by simp
  have keys: "dict_get kvs ''kind'' = dict_get kvs' ''kind''"
    "dict_get kvs ''members_count'' = dict_get kvs' ''members_count''"
    "dict_get kvs ''name'' = dict_get kvs' ''name''"
    "dict_get kvs ''url'' = dict_get kvs' ''url''"
    "dict_get kvs ''slug'' = dict_get kvs' ''slug''"
    "dict_get kvs ''date_latest_message'' = dict_get kvs' ''date_latest_message''"
    "dict_get kvs ''date_created'' = dict_get kvs' ''date_created''"
    "dict_get kvs ''topics_count'' = dict_get kvs' ''topics_count''"
    "dict_get kvs ''unread'' = dict_get kvs' ''unread''"
    "dict_get kvs ''id'' = dict_get kvs' ''id''"
    "dict_get kvs ''creator'' = dict_get kvs' ''creator''"
    by (rule dg, simp)+
  have fr: "import_friends (PDict kvs) = import_friends (PDict kvs')"
    by (rule ext, rule import_friends_cong, rule m) simp
  show ?thesis
    unfolding Group_import_dict keys fr ..
qed

lemma Group_import_bad_latest:
  "utcfromtimestamp (dict_get kvs ''date_latest_message'') = Inl e \<Longrightarrow>
   Group_import_from_api self (PDict kvs) =
     (self\<lparr>group_kind := dict_get kvs ''kind'',
            group_members_count := dict_get kvs ''members_count'',
            group_name := dict_get kvs ''name'',
            group_url := dict_get kvs ''url'',
            group_slug := dict_get kvs ''slug''\<rparr>, Some e)"
  by (simp add: Group_import_dict Let_def)

lemma Group_import_bad_created:
  "utcfromtimestamp (dict_get kvs ''date_latest_message'') = Inr t1 \<Longrightarrow>
   utcfromtimestamp (dict_get kvs ''date_created'') = Inl e \<Longrightarrow>
   Group_import_from_api self (PDict kvs) =
     (self\<lparr>group_kind := dict_get kvs ''kind'',
            group_members_count := dict_get kvs ''members_count'',
            group_name := dict_get kvs ''name'',
            group_url := dict_get kvs ''url'',
            group_slug := dict_get kvs ''slug'',
            group_date_latest_message := Some t1\<rparr>, Some e)"
  by (simp add: Group_import_dict Let_def)

lemma Group_import_bad_creator:
  "utcfromtimestamp (dict_get kvs ''date_latest_message'') = Inr t1 \<Longrightarrow>
   utcfromtimestamp (dict_get kvs ''date_created'') = Inr t2 \<Longrightarrow>
   \<not> is_dict (dict_get kvs ''creator'') \<Longrightarrow>
   Group_import_from_api self (PDict kvs) =
     (self\<lparr>group_kind := dict_get kvs ''kind'',
            group_members_count := dict_get kvs ''members_count'',
            group_name := dict_get kvs ''name'',
            group_url := dict_get kvs ''url'',
            group_slug := dict_get kvs ''slug'',
            group_date_latest_message := Some t1,
            group_date_created := Some t2,
            group_topics_count := dict_get kvs ''topics_count'',
            group_unread := dict_get kvs ''unread'',
            group_id := dict_get kvs ''id'',
            group_creator := Some User_init\<rparr>, Some AttributeError)"
  by (simp add: Group_import_dict Let_def)

lemma Group_import_ok:
  "utcfromtimestamp (dict_get kvs ''date_latest_message'') = Inr t1 \<Longrightarrow>
   utcfromtimestamp (dict_get kvs ''date_created'') = Inr t2 \<Longrightarrow>
   is_dict (dict_get kvs ''creator'') \<Longrightarrow>
   Group_import_from_api self (PDict kvs) =
     import_friends (PDict kvs)
       (self\<lparr>group_kind := dict_get kvs ''kind'',
              group_members_count := dict_get kvs ''members_count'',
              group_name := dict_get kvs ''name'',
              group_url := dict_get kvs ''url'',
              group_slug := dict_get kvs ''slug'',
              group_date_latest_message := Some t1,
              group_date_created := Some t2,
              group_topics_count := dict_get kvs ''topics_count'',
              group_unread := dict_get kvs ''unread'',
              group_id := dict_get kvs ''id'',
              group_creator := Some (user_of (dict_get kvs ''creator'')),
              group_friends := Some []\<rparr>)"
  by (simp add: Group_import_dict Let_def)

lemma Group_import_error_cong:
  assumes "map_of kvs ''date_latest_message'' = map_of kvs' ''date_latest_message''"
    and "map_of kvs ''date_created'' = map_of kvs' ''date_created''"
    and "map_of kvs ''creator'' = map_of kvs' ''creator''"
    and "map_of kvs ''friend_list'' = map_of kvs' ''friend_list''"
  shows "snd (Group_import_from_api self (PDict kvs)) = snd (Group_import_from_api self' (PDict kvs'))"
proof -
  have dg: "dict_get kvs ''date_latest_message'' = dict_get kvs' ''date_latest_message''"
    "dict_get kvs ''date_created'' = dict_get kvs' ''date_created''"
    "dict_get kvs ''creator'' = dict_get kvs' ''creator''"
    using assms by (simp_all add: dict_get_def)
  show ?thesis
  proof (cases "utcfromtimestamp (dict_get kvs' ''date_latest_message'')")
    case (Inl e)
    then show ?thesis by (simp add: Group_import_bad_latest dg)
  next
    case t1: (Inr t1)
    show ?thesis
    proof (cases "utcfromtimestamp (dict_get kvs' ''date_created'')")
      case (Inl e)
      with t1 show ?thesis by (simp add: Group_import_bad_created dg)
    next
      case t2: (Inr t2)
      show ?thesis
      proof (cases "is_dict (dict_get kvs' ''creator'')")
        case False
        with t1 t2 show ?thesis by (simp add: Group_import_bad_creator dg)
      next
        case True
        have l: "Group_import_from_api self (PDict kvs) =
          import_friends (PDict kvs')
            (self\<lparr>group_kind := dict_get kvs ''kind'',
              group_members_count := dict_get kvs ''members_count'',
              group_name := dict_get kvs ''name'',
              group_url := dict_get kvs ''url'',
              group_slug := dict_get kvs ''slug'',
              group_date_latest_message := Some t1,
              group_date_created := Some t2,
              group_topics_count := dict_get kvs ''topics_count'',
              group_unread := dict_get kvs ''unread'',
              group_id := dict_get kvs ''id'',
              group_creator := Some (user_of (dict_get kvs ''creator'')),
              group_friends := Some []\<rparr>)"
          using t1 t2 True
          by (simp only: Group_import_ok [of kvs t1 t2] dg import_friends_cong [OF assms(4)])
        show ?thesis
          unfolding l Group_import_ok [OF t1 t2 True]
          by (rule import_friends_error_cong) simp_all
      qed
    qed
  qed
qed

lemma Topic_import_error_cong:
  assumes "map_of kvs ''date_latest_message'' = map_of kvs' ''date_latest_message''"
    and "map_of kvs ''date_created'' = map_of kvs' ''date_created''"
    and "map_of kvs ''creator'' = map_of kvs' ''creator''"
  shows "snd (Topic_import_from_api self (PDict kvs)) = snd (Topic_import_from_api self' (PDict kvs'))"
proof -
  have dg: "dict_get kvs ''date_latest_message'' = dict_get kvs' ''date_latest_message''"
    "dict_get kvs ''date_created'' = dict_get kvs' ''date_created''"
    "dict_get kvs ''creator'' = dict_get kvs' ''creator''"
    using assms by (simp_all add: dict_get_def)
  show ?thesis
    by (cases "utcfromtimestamp (dict_get kvs' ''date_created'')";
        cases "utcfromtimestamp (dict_get kvs' ''date_latest_message'')";
        cases "is_dict (dict_get kvs' ''creator'')";
        simp add: Topic_import_dict Let_def dg)
qed

lemma Message_import_error_cong:
  assumes "map_of kvs ''date_created'' = map_of kvs' ''date_created''"
    and "map_of kvs ''user'' = map_of kvs' ''user''"
  shows "snd (Message_import_from_api self (PDict kvs)) = snd (Message_import_from_api self' (PDict kvs'))"
proof -
  have dg: "dict_get kvs ''date_created'' = dict_get kvs' ''date_created''"
    "dict_get kvs ''user'' = dict_get kvs' ''user''"
    using assms by (simp_all add: dict_get_def)
  show ?thesis
    by (cases "utcfromtimestamp (dict_get kvs' ''date_created'')";
        cases "is_dict (dict_get kvs' ''user'')";
        simp add: Message_import_dict Let_def dg)
qed

lemma import_friends_other_fields:
  "group_kind (fst (import_friends d g)) = group_kind g"
  "group_members_count (fst (import_friends d g)) = group_members_count g"
  "group_name (fst (import_friends d g)) = group_name g"
  "group_creator (fst (import_friends d g)) = group_creator g"
  "group_url (fst (import_friends d g)) = group_url g"
  "group_slug (fst (import_friends d g)) = group_slug g"
  "group_date_latest_message (fst (import_friends d g)) = group_date_latest_message g"
  "group_date_created (fst (import_friends d g)) = group_date_created g"
  "group_topics_count (fst (import_friends d g)) = group_topics_count g"
  "group_unread (fst (import_friends d g)) = group_unread g"
  "group_id (fst (import_friends d g)) = group_id g"
  "group_joined (fst (import_friends d g)) = group_joined g"
  using import_friends_frame [of d g] by auto

lemma Group_import_early_scalars:
  "group_kind (fst (Group_import_from_api g (PDict kvs))) = dict_get kvs ''kind'' \<and>
   group_members_count (fst (Group_import_from_api g (PDict kvs))) = dict_get kvs ''members_count'' \<and>
   group_name (fst (Group_import_from_api g (PDict kvs))) = dict_get kvs ''name'' \<and>
   group_url (fst (Group_import_from_api g (PDict kvs))) = dict_get kvs ''url'' \<and>
   group_slug (fst (Group_import_from_api g (PDict kvs))) = dict_get kvs ''slug''"
  by (cases "utcfromtimestamp (dict_get kvs ''date_latest_message'')";
      cases "utcfromtimestamp (dict_get kvs ''date_created'')";
      cases "is_dict (dict_get kvs ''creator'')";
      simp add: Group_import_bad_latest Group_import_bad_created Group_import_bad_creator
        Group_import_ok import_friends_other_fields)

lemma Group_import_late_fields:
  assumes "utcfromtimestamp (dict_get kvs ''date_latest_message'') = Inr t1"
    and "utcfromtimestamp (dict_get kvs ''date_created'') = Inr t2"
  shows "group_topics_count (fst (Group_import_from_api g (PDict kvs))) = dict_get kvs ''topics_count'' \<and>
   group_unread (fst (Group_import_from_api g (PDict kvs))) = dict_get kvs ''unread'' \<and>
   group_id (fst (Group_import_from_api g (PDict kvs))) = dict_get kvs ''id'' \<and>
   group_date_latest_message (fst (Group_import_from_api g (PDict kvs))) = Some t1 \<and>
   group_date_created (fst (Group_import_from_api g (PDict kvs))) = Some t2"
  using assms
  by (cases "is_dict (dict_get kvs ''creator'')";
      simp add: Group_import_bad_creator Group_import_ok import_friends_other_fields)

lemma Group_import_creator:
  assumes "utcfromtimestamp (dict_get kvs ''date_latest_message'') = Inr t1"
    and "utcfromtimestamp (dict_get kvs ''date_created'') = Inr t2"
    and "is_dict (dict_get kvs ''creator'')"
  shows "group_creator (fst (Group_import_from_api g (PDict kvs))) =
           Some (user_of (dict_get kvs ''creator''))"
  using assms by (simp add: Group_import_ok import_friends_other_fields)

lemma Group_import_fails:
  assumes "map_of kvs ''date_latest_message'' = None \<or> map_of kvs ''date_created'' = None \<or>
           map_of kvs ''creator'' = None \<or> \<not> is_dict (dict_get kvs ''creator'')"
  shows "snd (Group_import_from_api g (PDict kvs)) \<noteq> None"
proof -
  from assms consider "dict_get kvs ''date_latest_message'' = PNone"
    | "dict_get kvs ''date_created'' = PNone" | "\<not> is_dict (dict_get kvs ''creator'')"
    by (auto simp: dict_get_def)
  then show ?thesis
  proof cases
    case 1
    then show ?thesis by (simp add: Group_import_bad_latest)
  next
    case 2
    then show ?thesis
      by (cases "utcfromtimestamp (dict_get kvs ''date_latest_message'')")
        (simp_all add: Group_import_bad_latest Group_import_bad_created)
  next
    case 3
    then show ?thesis
      by (cases "utcfromtimestamp (dict_get kvs ''date_latest_message'')";
          cases "utcfromtimestamp (dict_get kvs ''date_created'')";
          simp add: Group_import_bad_latest Group_import_bad_created Group_import_bad_creator)
  qed
qed

lemma Topic_import_fails:
  assumes "map_of kvs ''date_latest_message'' = None \<or> map_of kvs ''date_created'' = None \<or>
           map_of kvs ''creator'' = None \<or> \<not> is_dict (dict_get kvs ''creator'')"
  shows "snd (Topic_import_from_api t (PDict kvs)) \<noteq> None"
proof -
  from assms consider "dict_get kvs ''date_latest_message'' = PNone"
    | "dict_get kvs ''date_created'' = PNone" | "\<not> is_dict (dict_get kvs ''creator'')"
    by (auto simp: dict_get_def)
  then show ?thesis
    by cases
      (cases "utcfromtimestamp (dict_get kvs ''date_created'')";
       cases "utcfromtimestamp (dict_get kvs ''date_latest_message'')";
       simp add: Topic_import_dict Let_def)+
qed

lemma Message_import_fails:
  assumes "map_of kvs ''date_created'' = None \<or>
           map_of kvs ''user'' = None \<or> \<not> is_dict (dict_get kvs ''user'')"
  shows "snd (Message_import_from_api m (PDict kvs)) \<noteq> None"
proof -
  from assms consider "dict_get kvs ''date_created'' = PNone" | "\<not> is_dict (dict_get kvs ''user'')"
    by (auto simp: dict_get_def)
  then show ?thesis
    by cases
      (cases "utcfromtimestamp (dict_get kvs ''date_created'')"; simp add: Message_import_dict Let_def)+
qed

subsection \<open>Scalar fields\<close>

lemma Topic_import_scalars:
  "topic_id (fst (Topic_import_from_api t (PDict kvs))) = dict_get kvs ''id''"
  "topic_name (fst (Topic_import_from_api t (PDict kvs))) = dict_get kvs ''name''"
  "topic_slug (fst (Topic_import_from_api t (PDict kvs))) = dict_get kvs ''slug''"
  "topic_url (fst (Topic_import_from_api t (PDict kvs))) = dict_get kvs ''url''"
  "topic_message_count (fst (Topic_import_from_api t (PDict kvs))) = dict_get kvs ''message_count''"
  "topic_unread (fst (Topic_import_from_api t (PDict kvs))) = dict_get kvs ''unread''"
  by (cases "utcfromtimestamp (dict_get kvs ''date_created'')";
      cases "utcfromtimestamp (dict_get kvs ''date_latest_message'')";
      cases "is_dict (dict_get kvs ''creator'')";
      simp add: Topic_import_dict Let_def)+

lemma Message_import_scalars:
  "message_id (fst (Message_import_from_api m (PDict kvs))) = dict_get kvs ''id''"
  "message_message (fst (Message_import_from_api m (PDict kvs))) = dict_get kvs ''message''"
  by (cases "utcfromtimestamp (dict_get kvs ''date_created'')";
      cases "is_dict (dict_get kvs ''user'')";
      simp add: Message_import_dict Let_def)+

lemma Group_import_late_scalars:
  "\<not> isl (utcfromtimestamp (dict_get kvs ''date_latest_message'')) \<and>
   \<not> isl (utcfromtimestamp (dict_get kvs ''date_created'')) \<longrightarrow>
   group_topics_count (fst (Group_import_from_api g (PDict kvs))) = dict_get kvs ''topics_count'' \<and>
   group_unread (fst (Group_import_from_api g (PDict kvs))) = dict_get kvs ''unread'' \<and>
   group_id (fst (Group_import_from_api g (PDict kvs))) = dict_get kvs ''id''"
proof (intro impI, elim conjE)
  assume a: "\<not> isl (utcfromtimestamp (dict_get kvs ''date_latest_message''))"
    and b: "\<not> isl (utcfromtimestamp (dict_get kvs ''date_created''))"
  from a obtain t1 where t1: "utcfromtimestamp (dict_get kvs ''date_latest_message'') = Inr t1"
    by (cases "utcfromtimestamp (dict_get kvs ''date_latest_message'')") simp_all
  from b obtain t2 where t2: "utcfromtimestamp (dict_get kvs ''date_created'') = Inr t2"
    by (cases "utcfromtimestamp (dict_get kvs ''date_created'')") simp_all
  from Group_import_late_fields [OF t1 t2, of g]
  show "group_topics_count (fst (Group_import_from_api g (PDict kvs))) = dict_get kvs ''topics_count'' \<and>
   group_unread (fst (Group_import_from_api g (PDict kvs))) = dict_get kvs ''unread'' \<and>
   group_id (fst (Group_import_from_api g (PDict kvs))) = dict_get kvs ''id''"
    by blast
qed

lemma Group_import_without_scalar:
  "k \<notin> {''date_latest_message'', ''date_created'', ''creator'', ''friend_list''} \<longrightarrow>
   snd (Group_import_from_api g (PDict (without k kvs))) = snd (Group_import_from_api g (PDict kvs))"
  by (intro impI, rule Group_import_error_cong) (auto simp: map_of_without)

lemma Topic_import_without_scalar:
  "k \<notin> {''date_latest_message'', ''date_created'', ''creator''} \<longrightarrow>
   snd (Topic_import_from_api t (PDict (without k kvs))) = snd (Topic_import_from_api t (PDict kvs))"
  by (intro impI, rule Topic_import_error_cong) (auto simp: map_of_without)

lemma Message_import_without_scalar:
  "k \<notin> {''date_created'', ''user''} \<longrightarrow>
   snd (Message_import_from_api m (PDict (without k kvs))) = snd (Message_import_from_api m (PDict kvs))"
  by (intro impI, rule Message_import_error_cong) (auto simp: map_of_without)

lemmas Group_import_early_scalars' =
  Group_import_early_scalars [THEN conjunct1]
  Group_import_early_scalars [THEN conjunct2, THEN conjunct1]
  Group_import_early_scalars [THEN conjunct2, THEN conjunct2, THEN conjunct1]
  Group_import_early_scalars [THEN conjunct2, THEN conjunct2, THEN conjunct2, THEN conjunct1]
  Group_import_early_scalars [THEN conjunct2, THEN conjunct2, THEN conjunct2, THEN conjunct2]

text \<open>
  C2, as stated, fails for three fields of a Group. \<open>topics_count\<close>, \<open>unread\<close> and
  \<open>id\<close> are assigned after the two time stamps, and a time stamp that is missing or
  does not convert raises before they are reached: the mapping \<open>{'id': 3}\<close> has the
  key \<open>id\<close>, yet decoding it into a fresh Group raises \<open>TypeError\<close> and leaves
  \<open>id\<close> at \<open>None\<close>; and the empty mapping lacks \<open>id\<close>, yet a Group whose \<open>id\<close> was
  9 keeps it.
\<close>

theorem scalar_field_counterexample:
  "map_of [(''id'', PInt 3)] ''id'' = Some (PInt 3) \<and>
   group_id (fst (Group_import_from_api Group_init (PDict [(''id'', PInt 3)]))) = PNone \<and>
   snd (Group_import_from_api Group_init (PDict [(''id'', PInt 3)])) = Some TypeError \<and>
   map_of [] ''id'' = (None :: pyval option) \<and>
   group_id (fst (Group_import_from_api (Group_init\<lparr>group_id := PInt 9\<rparr>) (PDict []))) = PInt 9"
proof -
  have a: "utcfromtimestamp (dict_get [(''id'', PInt 3)] ''date_latest_message'') = Inl TypeError"
    by (simp add: dict_get_def)
  have b: "utcfromtimestamp (dict_get [] ''date_latest_message'') = Inl TypeError"
    by (simp add: dict_get_def)
  show ?thesis
    by (simp add: Group_import_bad_latest [OF a] Group_import_bad_latest [OF b] Group_init_def)
qed

text \<open>
  C2, amended. On a mapping, every scalar field is read with a default: the field ends
  as the mapped value when the key is present and as \<open>None\<close> when it is missing
  (\<open>dict_get\<close>). User and Category decoding always return. In Topic, Message and Group
  the scalar fields are set whatever else the mapping holds, except \<open>topics_count\<close>,
  \<open>unread\<close> and \<open>id\<close> of a Group, which are assigned after the two time stamps and
  are set once both have converted. Removing any key other than the time stamps, the
  nested entity and \<open>friend_list\<close> never changes whether, or how, decoding fails.
\<close>

theorem scalar_fields_default_to_None:
  "User_import_from_api u (PDict kvs) =
     (u\<lparr>user_username := dict_get kvs ''username'', user_url := dict_get kvs ''url'',
        user_id := dict_get kvs ''id'', user_img := dict_get kvs ''img''\<rparr>, None) \<and>
   Category_import_from_api c (PDict kvs) =
     (c\<lparr>category_groups_count := dict_get kvs ''groups_count'',
        category_slug := dict_get kvs ''slug'', category_name := dict_get kvs ''name''\<rparr>, None) \<and>
   topic_id (fst (Topic_import_from_api t (PDict kvs))) = dict_get kvs ''id'' \<and>
   topic_name (fst (Topic_import_from_api t (PDict kvs))) = dict_get kvs ''name'' \<and>
   topic_slug (fst (Topic_import_from_api t (PDict kvs))) = dict_get kvs ''slug'' \<and>
   topic_url (fst (Topic_import_from_api t (PDict kvs))) = dict_get kvs ''url'' \<and>
   topic_message_count (fst (Topic_import_from_api t (PDict kvs))) = dict_get kvs ''message_count'' \<and>
   topic_unread (fst (Topic_import_from_api t (PDict kvs))) = dict_get kvs ''unread'' \<and>
   message_id (fst (Message_import_from_api m (PDict kvs))) = dict_get kvs ''id'' \<and>
   message_message (fst (Message_import_from_api m (PDict kvs))) = dict_get kvs ''message'' \<and>
   group_kind (fst (Group_import_from_api g (PDict kvs))) = dict_get kvs ''kind'' \<and>
   group_members_count (fst (Group_import_from_api g (PDict kvs))) = dict_get kvs ''members_count'' \<and>
   group_name (fst (Group_import_from_api g (PDict kvs))) = dict_get kvs ''name'' \<and>
   group_url (fst (Group_import_from_api g (PDict kvs))) = dict_get kvs ''url'' \<and>
   group_slug (fst (Group_import_from_api g (PDict kvs))) = dict_get kvs ''slug'' \<and>
   (\<not> isl (utcfromtimestamp (dict_get kvs ''date_latest_message'')) \<and>
    \<not> isl (utcfromtimestamp (dict_get kvs ''date_created'')) \<longrightarrow>
    group_topics_count (fst (Group_import_from_api g (PDict kvs))) = dict_get kvs ''topics_count'' \<and>
    group_unread (fst (Group_import_from_api g (PDict kvs))) = dict_get kvs ''unread'' \<and>
    group_id (fst (Group_import_from_api g (PDict kvs))) = dict_get kvs ''id'') \<and>
   (k \<notin> {''date_latest_message'', ''date_created'', ''creator'', ''friend_list''} \<longrightarrow>
    snd (Group_import_from_api g (PDict (without k kvs))) =
    snd (Group_import_from_api g (PDict kvs))) \<and>
   (k \<notin> {''date_latest_message'', ''date_created'', ''creator''} \<longrightarrow>
    snd (Topic_import_from_api t (PDict (without k kvs))) =
    snd (Topic_import_from_api t (PDict kvs))) \<and>
   (k \<notin> {''date_created'', ''user''} \<longrightarrow>
    snd (Message_import_from_api m (PDict (without k kvs))) =
    snd (Message_import_from_api m (PDict kvs)))"
  by (intro conjI User_import_dict Category_import_dict Topic_import_scalars
      Message_import_scalars Group_import_early_scalars' Group_import_late_scalars
      Group_import_without_scalar Topic_import_without_scalar Message_import_without_scalar)

lemma sample_group_lookups:
  "dict_get sample_group ''id'' = PInt 3"
  "dict_get sample_group ''slug'' = PStr ''lobby''"
  "dict_get sample_group ''name'' = PStr ''Lobby''"
  "dict_get sample_group ''members_count'' = PInt 12"
  "dict_get sample_group ''topics_count'' = PInt 4"
  "dict_get sample_group ''kind'' = PNone"
  "dict_get sample_group ''url'' = PNone"
  "dict_get sample_group ''unread'' = PNone"
  "dict_get sample_group ''creator'' = PDict [(''username'', PStr ''ann''), (''id'', PInt 7)]"
  "map_of sample_group ''friend_list'' =
     Some (PList [PDict [(''username'', PStr ''bob'')], PDict [(''id'', PInt 9)]])"
  by (simp_all add: sample_group_def dict_get_def)


lemma sample_group_dates:
  "utcfromtimestamp (dict_get sample_group ''date_created'') =
     Inr \<lparr>year = 1970, month = 1, day = 1, hour = 0, minute = 0, second = 0, microsecond = 0\<rparr>"
  "utcfromtimestamp (dict_get sample_group ''date_latest_message'') =
     Inr \<lparr>year = 1970, month = 1, day = 2, hour = 0, minute = 0, second = 0, microsecond = 0\<rparr>"
  by code_simp+

text \<open>The sample group: present keys are copied, missing ones give \<open>None\<close>, and
  dropping \<open>id\<close> changes nothing about the outcome.\<close>

theorem scalar_fields_default_to_None_witness:
  "group_id (fst (Group_import_from_api Group_init (PDict sample_group))) = PInt 3 \<and>
   group_unread (fst (Group_import_from_api Group_init (PDict sample_group))) = PNone \<and>
   group_kind (fst (Group_import_from_api Group_init (PDict sample_group))) = PNone \<and>
   group_slug (fst (Group_import_from_api Group_init (PDict sample_group))) = PStr ''lobby'' \<and>
   snd (Group_import_from_api Group_init (PDict (without ''id'' sample_group))) =
   snd (Group_import_from_api Group_init (PDict sample_group))"
  using scalar_fields_default_to_None
    [of User_init sample_group Category_init Topic_init Message_init Group_init "''id''"]
  by (simp add: sample_group_lookups sample_group_dates)

subsection \<open>Time stamps and nested entities\<close>

lemma Group_import_strict:
  "map_of kvs ''date_latest_message'' = None \<or> map_of kvs ''date_created'' = None \<or>
   map_of kvs ''creator'' = None \<or> \<not> is_dict (dict_get kvs ''creator'') \<longrightarrow>
   snd (Group_import_from_api g (PDict kvs)) \<noteq> None"
  using Group_import_fails [of kvs g] by blast

lemma Topic_import_strict:
  "map_of kvs ''date_latest_message'' = None \<or> map_of kvs ''date_created'' = None \<or>
   map_of kvs ''creator'' = None \<or> \<not> is_dict (dict_get kvs ''creator'') \<longrightarrow>
   snd (Topic_import_from_api t (PDict kvs)) \<noteq> None"
  using Topic_import_fails [of kvs t] by blast

lemma Message_import_strict:
  "map_of kvs ''date_created'' = None \<or> map_of kvs ''user'' = None \<or>
   \<not> is_dict (dict_get kvs ''user'') \<longrightarrow>
   snd (Message_import_from_api m (PDict kvs)) \<noteq> None"
  using Message_import_fails [of kvs m] by blast

lemma Group_import_converts:
  "utcfromtimestamp (dict_get kvs ''date_latest_message'') = Inr t1 \<and>
   utcfromtimestamp (dict_get kvs ''date_created'') = Inr t2 \<and>
   dict_get kvs ''creator'' = PDict ckvs \<longrightarrow>
   group_date_latest_message (fst (Group_import_from_api g (PDict kvs))) = Some t1 \<and>
   group_date_created (fst (Group_import_from_api g (PDict kvs))) = Some t2 \<and>
   group_creator (fst (Group_import_from_api g (PDict kvs))) =
     Some \<lparr>user_username = dict_get ckvs ''username'', user_url = dict_get ckvs ''url'',
           user_id = dict_get ckvs ''id'', user_img = dict_get ckvs ''img''\<rparr>"
proof (intro impI, elim conjE)
  assume a: "utcfromtimestamp (dict_get kvs ''date_latest_message'') = Inr t1"
    "utcfromtimestamp (dict_get kvs ''date_created'') = Inr t2"
    and c: "dict_get kvs ''creator'' = PDict ckvs"
  from c have d: "is_dict (dict_get kvs ''creator'')" by simp
  show "group_date_latest_message (fst (Group_import_from_api g (PDict kvs))) = Some t1 \<and>
   group_date_created (fst (Group_import_from_api g (PDict kvs))) = Some t2 \<and>
   group_creator (fst (Group_import_from_api g (PDict kvs))) =
     Some \<lparr>user_username = dict_get ckvs ''username'', user_url = dict_get ckvs ''url'',
           user_id = dict_get ckvs ''id'', user_img = dict_get ckvs ''img''\<rparr>"
    using Group_import_late_fields [OF a, of g] Group_import_creator [OF a d, of g]
    by (simp add: c user_of_dict)
qed

lemma Topic_import_converts:
  "utcfromtimestamp (dict_get kvs ''date_latest_message'') = Inr t1 \<and>
   utcfromtimestamp (dict_get kvs ''date_created'') = Inr t2 \<and>
   dict_get kvs ''creator'' = PDict ckvs \<longrightarrow>
   snd (Topic_import_from_api t (PDict kvs)) = None \<and>
   topic_date_latest_message (fst (Topic_import_from_api t (PDict kvs))) = Some t1 \<and>
   topic_date_created (fst (Topic_import_from_api t (PDict kvs))) = Some t2 \<and>
   topic_creator (fst (Topic_import_from_api t (PDict kvs))) =
     Some \<lparr>user_username = dict_get ckvs ''username'', user_url = dict_get ckvs ''url'',
           user_id = dict_get ckvs ''id'', user_img = dict_get ckvs ''img''\<rparr>"
  by (simp add: Topic_import_dict Let_def user_of_dict)

lemma Message_import_converts:
  "utcfromtimestamp (dict_get kvs ''date_created'') = Inr t2 \<and>
   dict_get kvs ''user'' = PDict ckvs \<longrightarrow>
   snd (Message_import_from_api m (PDict kvs)) = None \<and>
   message_date_created (fst (Message_import_from_api m (PDict kvs))) = Some t2 \<and>
   message_user (fst (Message_import_from_api m (PDict kvs))) =
     Some \<lparr>user_username = dict_get ckvs ''username'', user_url = dict_get ckvs ''url'',
           user_id = dict_get ckvs ''id'', user_img = dict_get ckvs ''img''\<rparr>"
  by (simp add: Message_import_dict Let_def user_of_dict)

text \<open>
  C3. Group, Topic and Message decoding raise when a time stamp key is missing, or when
  the nested entity (\<open>creator\<close>, or \<open>user\<close> of a Message) is missing or is not a
  mapping. When the time stamps convert and the nested value is a mapping, the date
  fields hold the converted date-times and the nested field holds a User with all four
  fields decoded; Topic and Message decoding then return. A missing time stamp reaches
  the conversion as \<open>None\<close>, which raises \<open>TypeError\<close>; an integer is converted as
  seconds since the epoch.
\<close>

theorem timestamps_and_nested_entities_are_strict:
  "(map_of kvs ''date_latest_message'' = None \<or> map_of kvs ''date_created'' = None \<or>
    map_of kvs ''creator'' = None \<or> \<not> is_dict (dict_get kvs ''creator'') \<longrightarrow>
    snd (Group_import_from_api g (PDict kvs)) \<noteq> None) \<and>
   (map_of kvs ''date_latest_message'' = None \<or> map_of kvs ''date_created'' = None \<or>
    map_of kvs ''creator'' = None \<or> \<not> is_dict (dict_get kvs ''creator'') \<longrightarrow>
    snd (Topic_import_from_api t (PDict kvs)) \<noteq> None) \<and>
   (map_of kvs ''date_created'' = None \<or> map_of kvs ''user'' = None \<or>
    \<not> is_dict (dict_get kvs ''user'') \<longrightarrow>
    snd (Message_import_from_api m (PDict kvs)) \<noteq> None) \<and>
   (utcfromtimestamp (dict_get kvs ''date_latest_message'') = Inr t1 \<and>
    utcfromtimestamp (dict_get kvs ''date_created'') = Inr t2 \<and>
    dict_get kvs ''creator'' = PDict ckvs \<longrightarrow>
    group_date_latest_message (fst (Group_import_from_api g (PDict kvs))) = Some t1 \<and>
    group_date_created (fst (Group_import_from_api g (PDict kvs))) = Some t2 \<and>
    group_creator (fst (Group_import_from_api g (PDict kvs))) =
      Some \<lparr>user_username = dict_get ckvs ''username'', user_url = dict_get ckvs ''url'',
            user_id = dict_get ckvs ''id'', user_img = dict_get ckvs ''img''\<rparr>) \<and>
   (utcfromtimestamp (dict_get kvs ''date_latest_message'') = Inr t1 \<and>
    utcfromtimestamp (dict_get kvs ''date_created'') = Inr t2 \<and>
    dict_get kvs ''creator'' = PDict ckvs \<longrightarrow>
    snd (Topic_import_from_api t (PDict kvs)) = None \<and>
    topic_date_latest_message (fst (Topic_import_from_api t (PDict kvs))) = Some t1 \<and>
    topic_date_created (fst (Topic_import_from_api t (PDict kvs))) = Some t2 \<and>
    topic_creator (fst (Topic_import_from_api t (PDict kvs))) =
      Some \<lparr>user_username = dict_get ckvs ''username'', user_url = dict_get ckvs ''url'',
            user_id = dict_get ckvs ''id'', user_img = dict_get ckvs ''img''\<rparr>) \<and>
   (utcfromtimestamp (dict_get kvs ''date_created'') = Inr t2 \<and>
    dict_get kvs ''user'' = PDict ckvs \<longrightarrow>
    snd (Message_import_from_api m (PDict kvs)) = None \<and>
    message_date_created (fst (Message_import_from_api m (PDict kvs))) = Some t2 \<and>
    message_user (fst (Message_import_from_api m (PDict kvs))) =
      Some \<lparr>user_username = dict_get ckvs ''username'', user_url = dict_get ckvs ''url'',
            user_id = dict_get ckvs ''id'', user_img = dict_get ckvs ''img''\<rparr>) \<and>
   utcfromtimestamp PNone = Inl TypeError \<and>
   utcfromtimestamp (PInt s) = from_epoch_seconds s"
  by (intro conjI Group_import_strict Topic_import_strict Message_import_strict
      Group_import_converts Topic_import_converts Message_import_converts
      utcfromtimestamp.simps)

text \<open>A group mapping without time stamps and a message whose \<open>user\<close> is a string
  both fail; the sample group gets its two dates and its creator.\<close>

theorem timestamps_and_nested_entities_are_strict_witness:
  "snd (Group_import_from_api Group_init (PDict [(''id'', PInt 3)])) \<noteq> None \<and>
   snd (Message_import_from_api Message_init
          (PDict [(''date_created'', PInt 0), (''user'', PStr ''ann'')])) \<noteq> None \<and>
   group_date_created (fst (Group_import_from_api Group_init (PDict sample_group))) =
     Some \<lparr>year = 1970, month = 1, day = 1, hour = 0, minute = 0, second = 0, microsecond = 0\<rparr> \<and>
   group_date_latest_message (fst (Group_import_from_api Group_init (PDict sample_group))) =
     Some \<lparr>year = 1970, month = 1, day = 2, hour = 0, minute = 0, second = 0, microsecond = 0\<rparr> \<and>
   group_creator (fst (Group_import_from_api Group_init (PDict sample_group))) =
     Some \<lparr>user_username = PStr ''ann'', user_url = PNone, user_id = PInt 7, user_img = PNone\<rparr>"
proof -
  have a: "map_of [(''id'', PInt 3)] ''date_latest_message'' = None"
    by simp
  have b: "\<not> is_dict (dict_get [(''date_created'', PInt 0), (''user'', PStr ''ann'')] ''user'')"
    by (simp add: dict_get_def)
  have 1: "snd (Group_import_from_api Group_init (PDict [(''id'', PInt 3)])) \<noteq> None"
    using timestamps_and_nested_entities_are_strict
      [where kvs = "[(''id'', PInt 3)]" and g = Group_init, THEN conjunct1, THEN mp,
       OF disjI1, OF a] .
  have 2: "snd (Message_import_from_api Message_init
          (PDict [(''date_created'', PInt 0), (''user'', PStr ''ann'')])) \<noteq> None"
    using timestamps_and_nested_entities_are_strict
      [where kvs = "[(''date_created'', PInt 0), (''user'', PStr ''ann'')]" and m = Message_init,
       THEN conjunct2, THEN conjunct2, THEN conjunct1, THEN mp, OF disjI2, OF disjI2, OF b] .
  have 3: "group_date_latest_message (fst (Group_import_from_api Group_init (PDict sample_group))) =
      Some \<lparr>year = 1970, month = 1, day = 2, hour = 0, minute = 0, second = 0, microsecond = 0\<rparr> \<and>
    group_date_created (fst (Group_import_from_api Group_init (PDict sample_group))) =
      Some \<lparr>year = 1970, month = 1, day = 1, hour = 0, minute = 0, second = 0, microsecond = 0\<rparr> \<and>
    group_creator (fst (Group_import_from_api Group_init (PDict sample_group))) =
      Some \<lparr>user_username = dict_get [(''username'', PStr ''ann''), (''id'', PInt 7)] ''username'',
            user_url = dict_get [(''username'', PStr ''ann''), (''id'', PInt 7)] ''url'',
            user_id = dict_get [(''username'', PStr ''ann''), (''id'', PInt 7)] ''id'',
            user_img = dict_get [(''username'', PStr ''ann''), (''id'', PInt 7)] ''img''\<rparr>"
    using timestamps_and_nested_entities_are_strict
      [where kvs = sample_group and g = Group_init,
       THEN conjunct2, THEN conjunct2, THEN conjunct2, THEN conjunct1, THEN mp,
       OF conjI [OF sample_group_dates(2) conjI [OF sample_group_dates(1) sample_group_lookups(9)]]] .
  from 1 2 3 show ?thesis by (simp add: dict_get_def)
qed

subsection \<open>Friends\<close>

lemma Group_import_friends_absent:
  assumes "utcfromtimestamp (dict_get kvs ''date_latest_message'') = Inr t1"
    and "utcfromtimestamp (dict_get kvs ''date_created'') = Inr t2"
    and "is_dict (dict_get kvs ''creator'')"
    and "map_of kvs ''friend_list'' = None"
  shows "snd (Group_import_from_api g (PDict kvs)) = None \<and>
         group_friends (fst (Group_import_from_api g (PDict kvs))) = Some []"
  by (simp add: Group_import_ok [OF assms(1-3)] import_friends_absent [OF assms(4)])

lemma Group_import_friends_list:
  assumes "utcfromtimestamp (dict_get kvs ''date_latest_message'') = Inr t1"
    and "utcfromtimestamp (dict_get kvs ''date_created'') = Inr t2"
    and "is_dict (dict_get kvs ''creator'')"
    and "map_of kvs ''friend_list'' = Some (PList us)"
    and "\<forall>u\<in>set us. is_dict u"
  shows "snd (Group_import_from_api g (PDict kvs)) = None \<and>
         group_friends (fst (Group_import_from_api g (PDict kvs))) = Some (map user_of us)"
proof -
  have "import_friends (PDict kvs) g' = (g'\<lparr>group_friends := Some ([] @ map user_of us)\<rparr>, None)"
    if "group_friends g' = Some []" for g'
    using import_friends_list [OF assms(4,5) that] .
  then show ?thesis
    by (simp add: Group_import_ok [OF assms(1-3)])
qed

text \<open>
  C4. For a group mapping whose time stamps convert and whose creator is a mapping:
  without a \<open>friend_list\<close> key decoding returns and \<open>friends\<close> is the empty list; with
  a \<open>friend_list\<close> that is a list of \<open>N\<close> mappings decoding returns and \<open>friends\<close>
  holds the \<open>N\<close> decoded Users in the order of the list.
\<close>

theorem friends_follow_friend_list:
  assumes "utcfromtimestamp (dict_get kvs ''date_latest_message'') = Inr t1"
    and "utcfromtimestamp (dict_get kvs ''date_created'') = Inr t2"
    and "is_dict (dict_get kvs ''creator'')"
  shows "(map_of kvs ''friend_list'' = None \<longrightarrow>
            snd (Group_import_from_api g (PDict kvs)) = None \<and>
            group_friends (fst (Group_import_from_api g (PDict kvs))) = Some []) \<and>
         (map_of kvs ''friend_list'' = Some (PList us) \<and> (\<forall>u\<in>set us. is_dict u) \<longrightarrow>
            snd (Group_import_from_api g (PDict kvs)) = None \<and>
            group_friends (fst (Group_import_from_api g (PDict kvs))) = Some (map user_of us) \<and>
            length (map user_of us) = length us)"
  using Group_import_friends_absent [OF assms, of g] Group_import_friends_list [OF assms, of us g]
  by simp

text \<open>The sample group has two friends, in order; without the key it has none.\<close>

theorem friends_follow_friend_list_witness:
  "group_friends (fst (Group_import_from_api Group_init (PDict sample_group))) =
     Some [\<lparr>user_username = PStr ''bob'', user_url = PNone, user_id = PNone, user_img = PNone\<rparr>,
           \<lparr>user_username = PNone, user_url = PNone, user_id = PInt 9, user_img = PNone\<rparr>] \<and>
   snd (Group_import_from_api Group_init (PDict sample_group)) = None \<and>
   group_friends (fst (Group_import_from_api Group_init
     (PDict (without ''friend_list'' sample_group)))) = Some [] \<and>
   snd (Group_import_from_api Group_init (PDict (without ''friend_list'' sample_group))) = None"
proof -
  have c: "is_dict (dict_get sample_group ''creator'')"
    by (simp add: sample_group_lookups)
  have 1: "snd (Group_import_from_api Group_init (PDict sample_group)) = None \<and>
    group_friends (fst (Group_import_from_api Group_init (PDict sample_group))) =
      Some (map user_of [PDict [(''username'', PStr ''bob'')], PDict [(''id'', PInt 9)]]) \<and>
    length (map user_of [PDict [(''username'', PStr ''bob'')], PDict [(''id'', PInt 9)]]) =
      length [PDict [(''username'', PStr ''bob'')], PDict [(''id'', PInt 9)]]"
    by (rule friends_follow_friend_list
          [OF sample_group_dates(2) sample_group_dates(1) c, THEN conjunct2, THEN mp])
       (simp add: sample_group_lookups)
  have w: "utcfromtimestamp (dict_get (without ''friend_list'' sample_group) ''date_latest_message'') =
       Inr \<lparr>year = 1970, month = 1, day = 2, hour = 0, minute = 0, second = 0, microsecond = 0\<rparr>"
    "utcfromtimestamp (dict_get (without ''friend_list'' sample_group) ''date_created'') =
       Inr \<lparr>year = 1970, month = 1, day = 1, hour = 0, minute = 0, second = 0, microsecond = 0\<rparr>"
    "is_dict (dict_get (without ''friend_list'' sample_group) ''creator'')"
    by (simp_all add: dict_get_without sample_group_dates sample_group_lookups)
  have 2: "snd (Group_import_from_api Group_init (PDict (without ''friend_list'' sample_group))) = None \<and>
    group_friends (fst (Group_import_from_api Group_init
      (PDict (without ''friend_list'' sample_group)))) = Some []"
    by (rule friends_follow_friend_list [OF w, THEN conjunct1, THEN mp])
       (simp add: map_of_without)
  from 1 2 show ?thesis by (simp add: user_of_dict dict_get_def)
qed

subsection \<open>What decoding a Group leaves alone\<close>

lemma Group_import_frame:
  "fst (Group_import_from_api self d) =
     self\<lparr>group_kind := group_kind (fst (Group_import_from_api self d)),
          group_members_count := group_members_count (fst (Group_import_from_api self d)),
          group_name := group_name (fst (Group_import_from_api self d)),
          group_creator := group_creator (fst (Group_import_from_api self d)),
          group_url := group_url (fst (Group_import_from_api self d)),
          group_slug := group_slug (fst (Group_import_from_api self d)),
          group_date_latest_message := group_date_latest_message (fst (Group_import_from_api self d)),
          group_date_created := group_date_created (fst (Group_import_from_api self d)),
          group_topics_count := group_topics_count (fst (Group_import_from_api self d)),
          group_friends := group_friends (fst (Group_import_from_api self d)),
          group_unread := group_unread (fst (Group_import_from_api self d)),
          group_id := group_id (fst (Group_import_from_api self d))\<rparr>"
  by (rule Group.equality) (simp_all add: Group_import_joined)

lemma Group_import_ignores_joined:
  "(\<forall>k. k \<noteq> ''joined'' \<longrightarrow> map_of kvs k = map_of kvs' k) \<longrightarrow>
   Group_import_from_api self (PDict kvs) = Group_import_from_api self (PDict kvs')"
  using Group_import_cong [of kvs kvs' self] by blast

text \<open>
  C10. \<open>Group.import_from_api\<close> leaves \<open>joined\<close> as it was, on every input and also
  when it raises; on a freshly constructed Group that is \<open>False\<close>. Two mappings that
  differ only at the key \<open>joined\<close> decode alike. The object after the call is the object
  before it with new values in the twelve assigned fields at most.
\<close>

theorem import_leaves_joined_alone:
  "group_joined (fst (Group_import_from_api self d)) = group_joined self \<and>
   group_joined (fst (Group_import_from_api Group_init d)) = False \<and>
   ((\<forall>k. k \<noteq> ''joined'' \<longrightarrow> map_of kvs k = map_of kvs' k) \<longrightarrow>
    Group_import_from_api self (PDict kvs) = Group_import_from_api self (PDict kvs')) \<and>
   fst (Group_import_from_api self d) =
     self\<lparr>group_kind := group_kind (fst (Group_import_from_api self d)),
          group_members_count := group_members_count (fst (Group_import_from_api self d)),
          group_name := group_name (fst (Group_import_from_api self d)),
          group_creator := group_creator (fst (Group_import_from_api self d)),
          group_url := group_url (fst (Group_import_from_api self d)),
          group_slug := group_slug (fst (Group_import_from_api self d)),
          group_date_latest_message := group_date_latest_message (fst (Group_import_from_api self d)),
          group_date_created := group_date_created (fst (Group_import_from_api self d)),
          group_topics_count := group_topics_count (fst (Group_import_from_api self d)),
          group_friends := group_friends (fst (Group_import_from_api self d)),
          group_unread := group_unread (fst (Group_import_from_api self d)),
          group_id := group_id (fst (Group_import_from_api self d))\<rparr>"
proof (intro conjI)
  show "group_joined (fst (Group_import_from_api Group_init d)) = False"
    by (simp add: Group_import_joined Group_init_def)
qed (rule Group_import_joined Group_import_ignores_joined Group_import_frame)+

text \<open>A \<open>joined\<close> key in the mapping is not read: a Group with \<open>joined\<close> set keeps
  it when the mapping says otherwise.\<close>

theorem import_leaves_joined_alone_witness:
  "Group_import_from_api (Group_init\<lparr>group_joined := True\<rparr>)
       (PDict ((''joined'', PBool False) # sample_group)) =
   Group_import_from_api (Group_init\<lparr>group_joined := True\<rparr>) (PDict sample_group) \<and>
   group_joined (fst (Group_import_from_api (Group_init\<lparr>group_joined := True\<rparr>)
       (PDict ((''joined'', PBool False) # sample_group)))) = True"
proof -
  have m: "\<forall>k. k \<noteq> ''joined'' \<longrightarrow> map_of ((''joined'', PBool False) # sample_group) k = map_of sample_group k"
    by auto
  note T = import_leaves_joined_alone
    [where self = "Group_init\<lparr>group_joined := True\<rparr>"
       and d = "PDict ((''joined'', PBool False) # sample_group)"
       and kvs = "(''joined'', PBool False) # sample_group" and kvs' = sample_group]
  from T [THEN conjunct2, THEN conjunct2, THEN conjunct1, THEN mp, OF m] T [THEN conjunct1]
  show ?thesis by simp
qed

section \<open>Resource collections: verified properties\<close>

lemma sum_bind_Inr_iff:
  "sum_bind m f = Inr y \<longleftrightarrow> (\<exists>x. m = Inr x \<and> f x = Inr y)"
  by (cases m) (simp_all add: sum_bind_def)

lemma sum_bind_Inr [simp]: "sum_bind (Inr x) f = f x"
  by (simp add: sum_bind_def)

lemma sum_bind_Inl [simp]: "sum_bind (Inl e) f = Inl e"
  by (simp add: sum_bind_def)

lemma returned_Inr_iff: "returned r = Inr s \<longleftrightarrow> r = (s, None)"
  by (cases r; cases "snd r") (auto simp: returned_def)

lemma append_each_map:
  assumes "\<And>x y. f x = Inr y \<Longrightarrow> y = h x"
  shows "append_each f xs acc = Inr ys \<Longrightarrow> ys = acc @ map h xs"
proof (induction xs arbitrary: acc)
  case Nil
  then show ?case by simp
next
  case (Cons x xs)
  show ?case
  proof (cases "f x")
    case (Inl e)
    with Cons.prems show ?thesis by simp
  next
    case (Inr y)
    with Cons.prems have "append_each f xs (acc @ [y]) = Inr ys" by simp
    from Cons.IH [OF this] assms [OF Inr] show ?thesis by simp
  qed
qed

lemma answers_envelope_missing:
  assumes "answers w path kvs" and "map_of kvs key = None"
  shows "sum_bind (get w path []) (\<lambda>resp. sum_bind (envelope w resp key) f) = Inl KeyError"
proof (cases "get w path []")
  case (Inl e)
  with assms(1) show ?thesis by (simp add: answers_def)
next
  case (Inr resp)
  with assms show ?thesis by (simp add: answers_def envelope_def)
qed

lemma answers_envelope_present:
  assumes "answers w path kvs" and "map_of kvs key = Some v"
  shows "sum_bind (get w path []) (\<lambda>resp. sum_bind (envelope w resp key) f) = f v"
proof (cases "get w path []")
  case (Inl e)
  with assms(1) show ?thesis by (simp add: answers_def)
next
  case (Inr resp)
  with assms show ?thesis by (simp add: answers_def envelope_def)
qed

lemma group_item_decoded:
  "sum_bind (returned (Group_import_from_api Group_init item))
     (\<lambda>group. Inr (group\<lparr>group_joined := True\<rparr>)) = Inr y \<Longrightarrow>
   y = (fst (Group_import_from_api Group_init item))\<lparr>group_joined := True\<rparr>"
  by (auto simp: sum_bind_Inr_iff returned_Inr_iff)

lemma member_item_decoded:
  "sum_bind (py_get member ''user'') (\<lambda>u. returned (User_import_from_api User_init u)) = Inr y \<Longrightarrow>
   y = user_of (projr (py_get member ''user''))"
  by (auto simp: sum_bind_Inr_iff returned_Inr_iff user_of_def)

lemma user_item_decoded:
  "returned (User_import_from_api User_init item) = Inr y \<Longrightarrow> y = user_of item"
  by (auto simp: returned_Inr_iff user_of_def)

lemma topic_item_decoded:
  "returned (Topic_import_from_api Topic_init item) = Inr y \<Longrightarrow>
   y = fst (Topic_import_from_api Topic_init item)"
  by (auto simp: returned_Inr_iff)

lemma message_item_decoded:
  "returned (Message_import_from_api Message_init item) = Inr y \<Longrightarrow>
   y = fst (Message_import_from_api Message_init item)"
  by (auto simp: returned_Inr_iff)

lemma groups_loop:
  assumes "append_each
       (\<lambda>item. sum_bind (returned (Group_import_from_api Group_init item))
          (\<lambda>group. Inr (group\<lparr>group_joined := True\<rparr>))) items [] = Inr gs"
  shows "gs = map (\<lambda>item. (fst (Group_import_from_api Group_init item))\<lparr>group_joined := True\<rparr>) items"
proof -
  have "gs = [] @ map (\<lambda>item. (fst (Group_import_from_api Group_init item))\<lparr>group_joined := True\<rparr>) items"
    by (rule append_each_map [OF _ assms]) (rule group_item_decoded)
  then show ?thesis by simp
qed

lemma members_loop:
  assumes "append_each
       (\<lambda>member. sum_bind (py_get member ''user'')
          (\<lambda>u. returned (User_import_from_api User_init u))) items [] = Inr us"
  shows "us = map (\<lambda>member. user_of (projr (py_get member ''user''))) items"
proof -
  have "us = [] @ map (\<lambda>member. user_of (projr (py_get member ''user''))) items"
    by (rule append_each_map [OF _ assms]) (rule member_item_decoded)
  then show ?thesis by simp
qed

lemma online_loop:
  assumes "append_each (\<lambda>online. returned (User_import_from_api User_init online)) items [] = Inr us"
  shows "us = map user_of items"
proof -
  have "us = [] @ map user_of items"
    by (rule append_each_map [OF _ assms]) (rule user_item_decoded)
  then show ?thesis by simp
qed

lemma topics_loop:
  assumes "append_each (\<lambda>item. returned (Topic_import_from_api Topic_init item)) items [] = Inr ts"
  shows "ts = map (\<lambda>item. fst (Topic_import_from_api Topic_init item)) items"
proof -
  have "ts = [] @ map (\<lambda>item. fst (Topic_import_from_api Topic_init item)) items"
    by (rule append_each_map [OF _ assms]) (rule topic_item_decoded)
  then show ?thesis by simp
qed

lemma messages_loop:
  assumes "append_each (\<lambda>item. returned (Message_import_from_api Message_init item)) items [] = Inr ms"
  shows "ms = map (\<lambda>item. fst (Message_import_from_api Message_init item)) items"
proof -
  have "ms = [] @ map (\<lambda>item. fst (Message_import_from_api Message_init item)) items"
    by (rule append_each_map [OF _ assms]) (rule message_item_decoded)
  then show ?thesis by simp
qed

lemma get_user_groups_missing:
  "answers w [SegStr ''groups''] kvs \<and> map_of kvs ''groups'' = None \<longrightarrow>
   get_user_groups w = Inl KeyError"
  unfolding get_user_groups_def by (intro impI, elim conjE, rule answers_envelope_missing)

lemma get_group_missing:
  "answers w [SegStr ''groups'', gid] kvs \<and> map_of kvs ''group'' = None \<longrightarrow>
   get_group w gid = Inl KeyError"
  unfolding get_group_def by (intro impI, elim conjE, rule answers_envelope_missing)

lemma get_group_members_missing:
  "answers w [SegStr ''groups'', gid, SegStr ''members''] kvs \<and> map_of kvs ''members'' = None \<longrightarrow>
   get_group_members w gid = Inl KeyError"
  unfolding get_group_members_def by (intro impI, elim conjE, rule answers_envelope_missing)

lemma get_group_online_members_missing:
  "answers w [SegStr ''groups'', gid, SegStr ''online''] kvs \<and> map_of kvs ''online'' = None \<longrightarrow>
   get_group_online_members w gid = Inl KeyError"
  unfolding get_group_online_members_def by (intro impI, elim conjE, rule answers_envelope_missing)

lemma get_group_topics_missing:
  "answers w [SegStr ''groups'', gid, SegStr ''topics''] kvs \<and> map_of kvs ''topics'' = None \<longrightarrow>
   get_group_topics w gid = Inl KeyError"
  unfolding get_group_topics_def by (intro impI, elim conjE, rule answers_envelope_missing)

lemma get_topic_missing:
  "answers w [SegStr ''topics'', tid] kvs \<and> map_of kvs ''topic'' = None \<longrightarrow>
   get_topic w tid = Inl KeyError"
  unfolding get_topic_def by (intro impI, elim conjE, rule answers_envelope_missing)

lemma get_messages_missing:
  "answers w [SegStr ''topics'', tid, SegStr ''messages''] kvs \<and> map_of kvs ''messages'' = None \<longrightarrow>
   get_messages w tid = Inl KeyError"
  unfolding get_messages_def by (intro impI, elim conjE, rule answers_envelope_missing)

lemma get_user_missing:
  "answers w [SegStr ''users'', uid] kvs \<and> map_of kvs ''user'' = None \<longrightarrow>
   get_user w uid = Inl KeyError"
  unfolding get_user_def by (intro impI, elim conjE, rule answers_envelope_missing)

lemma get_user_groups_order:
  "answers w [SegStr ''groups''] kvs \<and> map_of kvs ''groups'' = Some (PList items) \<and>
   get_user_groups w = Inr gs \<longrightarrow>
   gs = map (\<lambda>item. (fst (Group_import_from_api Group_init item))\<lparr>group_joined := True\<rparr>) items"
  unfolding get_user_groups_def
  by (intro impI, elim conjE, simp only: answers_envelope_present)
    (auto dest: groups_loop)

lemma get_group_members_order:
  "answers w [SegStr ''groups'', gid, SegStr ''members''] kvs \<and>
   map_of kvs ''members'' = Some (PList items) \<and> get_group_members w gid = Inr us \<longrightarrow>
   us = map (\<lambda>member. user_of (projr (py_get member ''user''))) items"
  unfolding get_group_members_def
  by (intro impI, elim conjE, simp only: answers_envelope_present)
    (auto dest: members_loop)

lemma get_group_online_members_order:
  "answers w [SegStr ''groups'', gid, SegStr ''online''] kvs \<and>
   map_of kvs ''online'' = Some (PList items) \<and> get_group_online_members w gid = Inr us \<longrightarrow>
   us = map user_of items"
  unfolding get_group_online_members_def
  by (intro impI, elim conjE, simp only: answers_envelope_present)
    (auto dest: online_loop)

lemma get_group_topics_order:
  "answers w [SegStr ''groups'', gid, SegStr ''topics''] kvs \<and>
   map_of kvs ''topics'' = Some (PList items) \<and> get_group_topics w gid = Inr ts \<longrightarrow>
   ts = map (\<lambda>item. fst (Topic_import_from_api Topic_init item)) items"
  unfolding get_group_topics_def
  by (intro impI, elim conjE, simp only: answers_envelope_present)
    (auto dest: topics_loop)

lemma get_messages_order:
  "answers w [SegStr ''topics'', tid, SegStr ''messages''] kvs \<and>
   map_of kvs ''messages'' = Some (PList items) \<and> get_messages w tid = Inr ms \<longrightarrow>
   ms = map (\<lambda>item. fst (Message_import_from_api Message_init item)) items"
  unfolding get_messages_def
  by (intro impI, elim conjE, simp only: answers_envelope_present)
    (auto dest: messages_loop)

subsection \<open>The joined flag of returned groups\<close>

lemma get_user_groups_joined:
  "get_user_groups w = Inr gs \<longrightarrow> (\<forall>g\<in>set gs. group_joined g)"
proof
  assume "get_user_groups w = Inr gs"
  then obtain items where
    "append_each
       (\<lambda>item. sum_bind (returned (Group_import_from_api Group_init item))
          (\<lambda>group. Inr (group\<lparr>group_joined := True\<rparr>))) items [] = Inr gs"
    unfolding get_user_groups_def sum_bind_Inr_iff by blast
  from groups_loop [OF this] show "\<forall>g\<in>set gs. group_joined g" by simp
qed

lemma get_group_not_joined:
  "get_group w gid = Inr g \<longrightarrow> \<not> group_joined g"
proof
  assume "get_group w gid = Inr g"
  then obtain v where "Group_import_from_api Group_init v = (g, None)"
    unfolding get_group_def sum_bind_Inr_iff returned_Inr_iff by blast
  then have "g = fst (Group_import_from_api Group_init v)" by simp
  then have "group_joined g = group_joined Group_init" by (simp only: Group_import_joined)
  then show "\<not> group_joined g" by (simp add: Group_init_def)
qed

text \<open>
  C5. Every Group that \<open>get_user_groups\<close> returns has \<open>joined\<close> true, and the Group
  that \<open>get_group\<close> returns has it false, for every world, that is, for every response
  body and every group id: the flag comes from the operation and not from the payload.
\<close>

theorem joined_set_by_operation:
  "(get_user_groups w = Inr gs \<longrightarrow> (\<forall>g\<in>set gs. group_joined g)) \<and>
   (get_group w gid = Inr g \<longrightarrow> \<not> group_joined g)"
  by (intro conjI get_user_groups_joined get_group_not_joined)

lemma sample_group_returns:
  "snd (Group_import_from_api Group_init (PDict sample_group)) = None"
proof -
  have c: "is_dict (dict_get sample_group ''creator'')"
    by (simp add: sample_group_lookups)
  from Group_import_friends_list [OF sample_group_dates(2) sample_group_dates(1) c sample_group_lookups(10)]
  show ?thesis by simp
qed

lemma fixed_world_get:
  "get (fixed_world 200 body codec) path [] = Inr \<lparr>status_code = 200, content = body\<rparr>"
  by (simp add: fixed_world_def get_def safe_response_eq http_error_status_def Let_def)

lemma sample_world_answers: "answers sample_world path sample_body"
  by (simp add: answers_def sample_world_def fixed_world_get) (simp add: fixed_world_def)

lemma empty_body_world_answers: "answers empty_body_world path []"
  by (simp add: answers_def empty_body_world_def fixed_world_get) (simp add: fixed_world_def)

lemma sample_body_lookups:
  "map_of sample_body ''groups'' = Some (PList [PDict ((''joined'', PBool False) # sample_group)])"
  "map_of sample_body ''group'' = Some (PDict ((''joined'', PBool True) # sample_group))"
  "map_of sample_body ''members'' =
     Some (PList [PDict [(''user'', PDict [(''id'', PInt 1), (''username'', PStr ''a'')])],
                  PDict [(''user'', PDict [(''id'', PInt 2), (''username'', PStr ''b'')])]])"
  by (simp_all add: sample_body_def)

lemma sample_joined_import:
  "Group_import_from_api Group_init (PDict ((''joined'', b) # sample_group)) =
     (fst (Group_import_from_api Group_init (PDict sample_group)), None)"
proof -
  have "Group_import_from_api Group_init (PDict ((''joined'', b) # sample_group)) =
        Group_import_from_api Group_init (PDict sample_group)"
    by (rule Group_import_cong) auto
  with sample_group_returns show ?thesis
    by (simp add: prod_eq_iff)
qed

lemma sample_world_user_groups:
  "get_user_groups sample_world =
     Inr [(fst (Group_import_from_api Group_init (PDict sample_group)))\<lparr>group_joined := True\<rparr>]"
  unfolding get_user_groups_def
    answers_envelope_present [OF sample_world_answers sample_body_lookups(1)]
  by (simp add: sample_joined_import returned_def)

lemma sample_world_group:
  "get_group sample_world gid = Inr (fst (Group_import_from_api Group_init (PDict sample_group)))"
  unfolding get_group_def
    answers_envelope_present [OF sample_world_answers sample_body_lookups(2)]
  by (simp add: sample_joined_import returned_def)

text \<open>The sample body says \<open>joined\<close> is false in the list and true in the single
  group; the operations return the opposite.\<close>

theorem joined_set_by_operation_witness:
  "get_user_groups sample_world =
     Inr [(fst (Group_import_from_api Group_init (PDict sample_group)))\<lparr>group_joined := True\<rparr>] \<and>
   group_joined ((fst (Group_import_from_api Group_init (PDict sample_group)))\<lparr>group_joined := True\<rparr>) \<and>
   get_group sample_world (SegInt 3) =
     Inr (fst (Group_import_from_api Group_init (PDict sample_group))) \<and>
   \<not> group_joined (fst (Group_import_from_api Group_init (PDict sample_group)))"
  using joined_set_by_operation [of sample_world
      "[(fst (Group_import_from_api Group_init (PDict sample_group)))\<lparr>group_joined := True\<rparr>]"
      "SegInt 3" "fst (Group_import_from_api Group_init (PDict sample_group))"]
  by (simp add: sample_world_user_groups sample_world_group)

subsection \<open>The envelope key\<close>

lemma returned_ok: "snd r = None \<Longrightarrow> returned r = Inr (fst r)"
  by (cases r) (simp add: returned_def)

lemma append_each_returns:
  "\<forall>x\<in>set xs. f x = Inr (h x) \<Longrightarrow> append_each f xs acc = Inr (acc @ map h xs)"
  by (induction xs arbitrary: acc) simp_all

lemma get_user_groups_returns:
  "answers w [SegStr ''groups''] kvs \<and> map_of kvs ''groups'' = Some (PList items) \<and>
   (\<forall>item\<in>set items. snd (Group_import_from_api Group_init item) = None) \<longrightarrow>
   get_user_groups w =
     Inr (map (\<lambda>item. (fst (Group_import_from_api Group_init item))\<lparr>group_joined := True\<rparr>) items)"
proof (intro impI, elim conjE)
  assume a: "answers w [SegStr ''groups''] kvs"
    and m: "map_of kvs ''groups'' = Some (PList items)"
    and d: "\<forall>item\<in>set items. snd (Group_import_from_api Group_init item) = None"
  have "append_each
       (\<lambda>item. sum_bind (returned (Group_import_from_api Group_init item))
          (\<lambda>group. Inr (group\<lparr>group_joined := True\<rparr>))) items [] =
     Inr ([] @ map (\<lambda>item. (fst (Group_import_from_api Group_init item))\<lparr>group_joined := True\<rparr>) items)"
  proof (rule append_each_returns, rule ballI)
    fix x assume "x \<in> set items"
    with d have "snd (Group_import_from_api Group_init x) = None" by blast
    then show "sum_bind (returned (Group_import_from_api Group_init x))
          (\<lambda>group. Inr (group\<lparr>group_joined := True\<rparr>)) =
        Inr ((fst (Group_import_from_api Group_init x))\<lparr>group_joined := True\<rparr>)"
      by (simp add: returned_ok)
  qed
  then show "get_user_groups w =
     Inr (map (\<lambda>item. (fst (Group_import_from_api Group_init item))\<lparr>group_joined := True\<rparr>) items)"
    unfolding get_user_groups_def answers_envelope_present [OF a m] by simp
qed

lemma get_group_members_returns:
  "answers w [SegStr ''groups'', gid, SegStr ''members''] kvs \<and>
   map_of kvs ''members'' = Some (PList items) \<and>
   (\<forall>member\<in>set items. is_dict member \<and> is_dict (projr (py_get member ''user''))) \<longrightarrow>
   get_group_members w gid = Inr (map (\<lambda>member. user_of (projr (py_get member ''user''))) items)"
proof (intro impI, elim conjE)
  assume a: "answers w [SegStr ''groups'', gid, SegStr ''members''] kvs"
    and m: "map_of kvs ''members'' = Some (PList items)"
    and d: "\<forall>member\<in>set items. is_dict member \<and> is_dict (projr (py_get member ''user''))"
  have "append_each
       (\<lambda>member. sum_bind (py_get member ''user'')
          (\<lambda>u. returned (User_import_from_api User_init u))) items [] =
     Inr ([] @ map (\<lambda>member. user_of (projr (py_get member ''user''))) items)"
  proof (rule append_each_returns, rule ballI)
    fix x assume "x \<in> set items"
    with d have 1: "is_dict x" and 2: "is_dict (projr (py_get x ''user''))" by blast+
    from 1 obtain mkvs where x: "x = PDict mkvs" by (cases x) simp_all
    from 2 x obtain ukvs where u: "dict_get mkvs ''user'' = PDict ukvs"
      by (cases "dict_get mkvs ''user''") simp_all
    show "sum_bind (py_get x ''user'') (\<lambda>u. returned (User_import_from_api User_init u)) =
        Inr (user_of (projr (py_get x ''user'')))"
      by (simp add: x u User_import_dict returned_def user_of_def)
  qed
  then show "get_group_members w gid =
      Inr (map (\<lambda>member. user_of (projr (py_get member ''user''))) items)"
    unfolding get_group_members_def answers_envelope_present [OF a m] by simp
qed

lemma get_group_online_members_returns:
  "answers w [SegStr ''groups'', gid, SegStr ''online''] kvs \<and>
   map_of kvs ''online'' = Some (PList items) \<and> (\<forall>item\<in>set items. is_dict item) \<longrightarrow>
   get_group_online_members w gid = Inr (map user_of items)"
proof (intro impI, elim conjE)
  assume a: "answers w [SegStr ''groups'', gid, SegStr ''online''] kvs"
    and m: "map_of kvs ''online'' = Some (PList items)"
    and d: "\<forall>item\<in>set items. is_dict item"
  have "append_each (\<lambda>online. returned (User_import_from_api User_init online)) items [] =
     Inr ([] @ map user_of items)"
  proof (rule append_each_returns, rule ballI)
    fix x assume "x \<in> set items"
    with d have "is_dict x" by blast
    then obtain ukvs where x: "x = PDict ukvs" by (cases x) simp_all
    show "returned (User_import_from_api User_init x) = Inr (user_of x)"
      by (simp add: x User_import_dict returned_def user_of_def)
  qed
  then show "get_group_online_members w gid = Inr (map user_of items)"
    unfolding get_group_online_members_def answers_envelope_present [OF a m] by simp
qed

lemma get_group_topics_returns:
  "answers w [SegStr ''groups'', gid, SegStr ''topics''] kvs \<and>
   map_of kvs ''topics'' = Some (PList items) \<and>
   (\<forall>item\<in>set items. snd (Topic_import_from_api Topic_init item) = None) \<longrightarrow>
   get_group_topics w gid = Inr (map (\<lambda>item. fst (Topic_import_from_api Topic_init item)) items)"
proof (intro impI, elim conjE)
  assume a: "answers w [SegStr ''groups'', gid, SegStr ''topics''] kvs"
    and m: "map_of kvs ''topics'' = Some (PList items)"
    and d: "\<forall>item\<in>set items. snd (Topic_import_from_api Topic_init item) = None"
  have "append_each (\<lambda>item. returned (Topic_import_from_api Topic_init item)) items [] =
     Inr ([] @ map (\<lambda>item. fst (Topic_import_from_api Topic_init item)) items)"
  proof (rule append_each_returns, rule ballI)
    fix x assume "x \<in> set items"
    with d have "snd (Topic_import_from_api Topic_init x) = None" by blast
    then show "returned (Topic_import_from_api Topic_init x) =
        Inr (fst (Topic_import_from_api Topic_init x))"
      by (rule returned_ok)
  qed
  then show "get_group_topics w gid =
      Inr (map (\<lambda>item. fst (Topic_import_from_api Topic_init item)) items)"
    unfolding get_group_topics_def answers_envelope_present [OF a m] by simp
qed

lemma get_messages_returns:
  "answers w [SegStr ''topics'', tid, SegStr ''messages''] kvs \<and>
   map_of kvs ''messages'' = Some (PList items) \<and>
   (\<forall>item\<in>set items. snd (Message_import_from_api Message_init item) = None) \<longrightarrow>
   get_messages w tid = Inr (map (\<lambda>item. fst (Message_import_from_api Message_init item)) items)"
proof (intro impI, elim conjE)
  assume a: "answers w [SegStr ''topics'', tid, SegStr ''messages''] kvs"
    and m: "map_of kvs ''messages'' = Some (PList items)"
    and d: "\<forall>item\<in>set items. snd (Message_import_from_api Message_init item) = None"
  have "append_each (\<lambda>item. returned (Message_import_from_api Message_init item)) items [] =
     Inr ([] @ map (\<lambda>item. fst (Message_import_from_api Message_init item)) items)"
  proof (rule append_each_returns, rule ballI)
    fix x assume "x \<in> set items"
    with d have "snd (Message_import_from_api Message_init x) = None" by blast
    then show "returned (Message_import_from_api Message_init x) =
        Inr (fst (Message_import_from_api Message_init x))"
      by (rule returned_ok)
  qed
  then show "get_messages w tid =
      Inr (map (\<lambda>item. fst (Message_import_from_api Message_init item)) items)"
    unfolding get_messages_def answers_envelope_present [OF a m] by simp
qed

lemma get_group_returns:
  "answers w [SegStr ''groups'', gid] kvs \<and> map_of kvs ''group'' = Some v \<and>
   snd (Group_import_from_api Group_init v) = None \<longrightarrow>
   get_group w gid = Inr (fst (Group_import_from_api Group_init v))"
proof (intro impI, elim conjE)
  assume a: "answers w [SegStr ''groups'', gid] kvs" and m: "map_of kvs ''group'' = Some v"
    and d: "snd (Group_import_from_api Group_init v) = None"
  show "get_group w gid = Inr (fst (Group_import_from_api Group_init v))"
    unfolding get_group_def answers_envelope_present [OF a m] by (rule returned_ok [OF d])
qed

lemma get_topic_returns:
  "answers w [SegStr ''topics'', tid] kvs \<and> map_of kvs ''topic'' = Some v \<and>
   snd (Topic_import_from_api Topic_init v) = None \<longrightarrow>
   get_topic w tid = Inr (fst (Topic_import_from_api Topic_init v))"
proof (intro impI, elim conjE)
  assume a: "answers w [SegStr ''topics'', tid] kvs" and m: "map_of kvs ''topic'' = Some v"
    and d: "snd (Topic_import_from_api Topic_init v) = None"
  show "get_topic w tid = Inr (fst (Topic_import_from_api Topic_init v))"
    unfolding get_topic_def answers_envelope_present [OF a m] by (rule returned_ok [OF d])
qed

lemma get_user_returns:
  "answers w [SegStr ''users'', uid] kvs \<and> map_of kvs ''user'' = Some v \<and> is_dict v \<longrightarrow>
   get_user w uid = Inr (user_of v)"
proof (intro impI, elim conjE)
  assume a: "answers w [SegStr ''users'', uid] kvs" and m: "map_of kvs ''user'' = Some v"
    and d: "is_dict v"
  from d obtain ukvs where v: "v = PDict ukvs" by (cases v) simp_all
  show "get_user w uid = Inr (user_of v)"
    unfolding get_user_def answers_envelope_present [OF a m]
    by (simp add: v User_import_dict returned_def user_of_def)
qed

text \<open>
  C6. When the request is answered without an HTTP error and the body decodes to a
  mapping: each of the eight operations raises \<open>KeyError\<close> if its envelope key is
  missing, and returns no entity; when the key holds a list whose elements all decode,
  each of the five list operations returns the list of the decoded elements in the
  order of the response, and a list it returns is always that list; when the key of a
  single-entity operation holds a value that decodes, the operation returns the decoded
  entity.
\<close>

theorem envelope_key_required:
  "(answers w [SegStr ''groups''] kvs \<and> map_of kvs ''groups'' = None \<longrightarrow>
      get_user_groups w = Inl KeyError) \<and>
   (answers w [SegStr ''groups'', gid] kvs \<and> map_of kvs ''group'' = None \<longrightarrow>
      get_group w gid = Inl KeyError) \<and>
   (answers w [SegStr ''groups'', gid, SegStr ''members''] kvs \<and> map_of kvs ''members'' = None \<longrightarrow>
      get_group_members w gid = Inl KeyError) \<and>
   (answers w [SegStr ''groups'', gid, SegStr ''online''] kvs \<and> map_of kvs ''online'' = None \<longrightarrow>
      get_group_online_members w gid = Inl KeyError) \<and>
   (answers w [SegStr ''groups'', gid, SegStr ''topics''] kvs \<and> map_of kvs ''topics'' = None \<longrightarrow>
      get_group_topics w gid = Inl KeyError) \<and>
   (answers w [SegStr ''topics'', tid] kvs \<and> map_of kvs ''topic'' = None \<longrightarrow>
      get_topic w tid = Inl KeyError) \<and>
   (answers w [SegStr ''topics'', tid, SegStr ''messages''] kvs \<and> map_of kvs ''messages'' = None \<longrightarrow>
      get_messages w tid = Inl KeyError) \<and>
   (answers w [SegStr ''users'', uid] kvs \<and> map_of kvs ''user'' = None \<longrightarrow>
      get_user w uid = Inl KeyError) \<and>
   (answers w [SegStr ''groups''] kvs \<and> map_of kvs ''groups'' = Some (PList items) \<and>
    (\<forall>item\<in>set items. snd (Group_import_from_api Group_init item) = None) \<longrightarrow>
      get_user_groups w =
        Inr (map (\<lambda>item. (fst (Group_import_from_api Group_init item))\<lparr>group_joined := True\<rparr>) items)) \<and>
   (answers w [SegStr ''groups'', gid, SegStr ''members''] kvs \<and>
    map_of kvs ''members'' = Some (PList items) \<and>
    (\<forall>member\<in>set items. is_dict member \<and> is_dict (projr (py_get member ''user''))) \<longrightarrow>
      get_group_members w gid =
        Inr (map (\<lambda>member. user_of (projr (py_get member ''user''))) items)) \<and>
   (answers w [SegStr ''groups'', gid, SegStr ''online''] kvs \<and>
    map_of kvs ''online'' = Some (PList items) \<and> (\<forall>item\<in>set items. is_dict item) \<longrightarrow>
      get_group_online_members w gid = Inr (map user_of items)) \<and>
   (answers w [SegStr ''groups'', gid, SegStr ''topics''] kvs \<and>
    map_of kvs ''topics'' = Some (PList items) \<and>
    (\<forall>item\<in>set items. snd (Topic_import_from_api Topic_init item) = None) \<longrightarrow>
      get_group_topics w gid =
        Inr (map (\<lambda>item. fst (Topic_import_from_api Topic_init item)) items)) \<and>
   (answers w [SegStr ''topics'', tid, SegStr ''messages''] kvs \<and>
    map_of kvs ''messages'' = Some (PList items) \<and>
    (\<forall>item\<in>set items. snd (Message_import_from_api Message_init item) = None) \<longrightarrow>
      get_messages w tid =
        Inr (map (\<lambda>item. fst (Message_import_from_api Message_init item)) items)) \<and>
   (answers w [SegStr ''groups'', gid] kvs \<and> map_of kvs ''group'' = Some v \<and>
    snd (Group_import_from_api Group_init v) = None \<longrightarrow>
      get_group w gid = Inr (fst (Group_import_from_api Group_init v))) \<and>
   (answers w [SegStr ''topics'', tid] kvs \<and> map_of kvs ''topic'' = Some v \<and>
    snd (Topic_import_from_api Topic_init v) = None \<longrightarrow>
      get_topic w tid = Inr (fst (Topic_import_from_api Topic_init v))) \<and>
   (answers w [SegStr ''users'', uid] kvs \<and> map_of kvs ''user'' = Some v \<and> is_dict v \<longrightarrow>
      get_user w uid = Inr (user_of v)) \<and>
   (answers w [SegStr ''groups''] kvs \<and> map_of kvs ''groups'' = Some (PList items) \<and>
    get_user_groups w = Inr gs \<longrightarrow>
      gs = map (\<lambda>item. (fst (Group_import_from_api Group_init item))\<lparr>group_joined := True\<rparr>) items) \<and>
   (answers w [SegStr ''groups'', gid, SegStr ''members''] kvs \<and>
    map_of kvs ''members'' = Some (PList items) \<and> get_group_members w gid = Inr us \<longrightarrow>
      us = map (\<lambda>member. user_of (projr (py_get member ''user''))) items) \<and>
   (answers w [SegStr ''groups'', gid, SegStr ''online''] kvs \<and>
    map_of kvs ''online'' = Some (PList items) \<and> get_group_online_members w gid = Inr os \<longrightarrow>
      os = map user_of items) \<and>
   (answers w [SegStr ''groups'', gid, SegStr ''topics''] kvs \<and>
    map_of kvs ''topics'' = Some (PList items) \<and> get_group_topics w gid = Inr ts \<longrightarrow>
      ts = map (\<lambda>item. fst (Topic_import_from_api Topic_init item)) items) \<and>
   (answers w [SegStr ''topics'', tid, SegStr ''messages''] kvs \<and>
    map_of kvs ''messages'' = Some (PList items) \<and> get_messages w tid = Inr ms \<longrightarrow>
      ms = map (\<lambda>item. fst (Message_import_from_api Message_init item)) items)"
  by (intro conjI get_user_groups_missing get_group_missing get_group_members_missing
      get_group_online_members_missing get_group_topics_missing get_topic_missing
      get_messages_missing get_user_missing get_user_groups_returns get_group_members_returns
      get_group_online_members_returns get_group_topics_returns get_messages_returns
      get_group_returns get_topic_returns get_user_returns get_user_groups_order
      get_group_members_order get_group_online_members_order get_group_topics_order
      get_messages_order)

lemma epoch_samples:
  "from_epoch_seconds 0 =
     Inr \<lparr>year = 1970, month = 1, day = 1, hour = 0, minute = 0, second = 0, microsecond = 0\<rparr>"
  "from_epoch_seconds 60 =
     Inr \<lparr>year = 1970, month = 1, day = 1, hour = 0, minute = 1, second = 0, microsecond = 0\<rparr>"
  by code_simp+

lemma sample_body_messages: "map_of sample_body ''messages'' = Some (PList sample_messages)"
  by (simp add: sample_body_def)

lemma sample_messages_decode:
  "\<forall>item\<in>set sample_messages. snd (Message_import_from_api Message_init item) = None"
  by (simp add: sample_messages_def Message_import_dict dict_get_def epoch_samples Let_def)

lemma sample_messages_decoded:
  "map (\<lambda>item. fst (Message_import_from_api Message_init item)) sample_messages =
     [\<lparr>message_id = PInt 1, message_message = PStr ''hi'',
       message_date_created = Some \<lparr>year = 1970, month = 1, day = 1, hour = 0, minute = 0,
         second = 0, microsecond = 0\<rparr>,
       message_user = Some \<lparr>user_username = PStr ''a'', user_url = PNone, user_id = PInt 1,
         user_img = PNone\<rparr>\<rparr>,
      \<lparr>message_id = PInt 2, message_message = PStr ''bye'',
       message_date_created = Some \<lparr>year = 1970, month = 1, day = 1, hour = 0, minute = 1,
         second = 0, microsecond = 0\<rparr>,
       message_user = Some \<lparr>user_username = PStr ''b'', user_url = PNone, user_id = PInt 2,
         user_img = PNone\<rparr>\<rparr>]"
  by (simp add: sample_messages_def Message_import_dict dict_get_def epoch_samples Let_def
      user_of_dict Message_init_def)

lemma sample_members_well_formed:
  "\<forall>member\<in>set [PDict [(''user'', PDict [(''id'', PInt 1), (''username'', PStr ''a'')])],
                   PDict [(''user'', PDict [(''id'', PInt 2), (''username'', PStr ''b'')])]].
     is_dict member \<and> is_dict (projr (py_get member ''user''))"
  by (simp add: dict_get_def)

text \<open>An empty JSON object makes the operations fail; the two members and the two
  messages of the sample body come back decoded, in their order.\<close>

theorem envelope_key_required_witness:
  "get_user_groups empty_body_world = Inl KeyError \<and>
   get_messages empty_body_world (SegInt 9) = Inl KeyError \<and>
   get_user empty_body_world (SegInt 1) = Inl KeyError \<and>
   get_group_members sample_world (SegInt 5) =
     Inr [\<lparr>user_username = PStr ''a'', user_url = PNone, user_id = PInt 1, user_img = PNone\<rparr>,
          \<lparr>user_username = PStr ''b'', user_url = PNone, user_id = PInt 2, user_img = PNone\<rparr>] \<and>
   get_messages sample_world (SegInt 9) =
     Inr [\<lparr>message_id = PInt 1, message_message = PStr ''hi'',
           message_date_created = Some \<lparr>year = 1970, month = 1, day = 1, hour = 0, minute = 0,
             second = 0, microsecond = 0\<rparr>,
           message_user = Some \<lparr>user_username = PStr ''a'', user_url = PNone, user_id = PInt 1,
             user_img = PNone\<rparr>\<rparr>,
          \<lparr>message_id = PInt 2, message_message = PStr ''bye'',
           message_date_created = Some \<lparr>year = 1970, month = 1, day = 1, hour = 0, minute = 1,
             second = 0, microsecond = 0\<rparr>,
           message_user = Some \<lparr>user_username = PStr ''b'', user_url = PNone, user_id = PInt 2,
             user_img = PNone\<rparr>\<rparr>]"
proof -
  note E = envelope_key_required [where w = empty_body_world and kvs = "[]"
      and uid = "SegInt 1" and tid = "SegInt 9"]
  have e: "map_of [] k = (None :: pyval option)" for k :: string by simp
  have 1: "get_user_groups empty_body_world = Inl KeyError"
    using E [THEN conjunct1, THEN mp, OF conjI [OF empty_body_world_answers e]] .
  have 2: "get_messages empty_body_world (SegInt 9) = Inl KeyError"
    using E [THEN conjunct2, THEN conjunct2, THEN conjunct2, THEN conjunct2, THEN conjunct2, THEN conjunct2, THEN conjunct1, THEN mp, OF conjI [OF empty_body_world_answers e]] .
  have 3: "get_user empty_body_world (SegInt 1) = Inl KeyError"
    using E [THEN conjunct2, THEN conjunct2, THEN conjunct2, THEN conjunct2, THEN conjunct2, THEN conjunct2, THEN conjunct2, THEN conjunct1, THEN mp, OF conjI [OF empty_body_world_answers e]] .
  have 4: "get_group_members sample_world (SegInt 5) =
      Inr (map (\<lambda>member. user_of (projr (py_get member ''user'')))
        [PDict [(''user'', PDict [(''id'', PInt 1), (''username'', PStr ''a'')])],
         PDict [(''user'', PDict [(''id'', PInt 2), (''username'', PStr ''b'')])]])"
    using envelope_key_required [where w = sample_world and kvs = sample_body
      and gid = "SegInt 5", THEN conjunct2, THEN conjunct2, THEN conjunct2, THEN conjunct2, THEN conjunct2, THEN conjunct2, THEN conjunct2, THEN conjunct2, THEN conjunct2, THEN conjunct1, THEN mp,
      OF conjI [OF sample_world_answers conjI [OF sample_body_lookups(3) sample_members_well_formed]]] .
  have 5: "get_messages sample_world (SegInt 9) =
      Inr (map (\<lambda>item. fst (Message_import_from_api Message_init item)) sample_messages)"
    using envelope_key_required [where w = sample_world and kvs = sample_body
      and tid = "SegInt 9", THEN conjunct2, THEN conjunct2, THEN conjunct2, THEN conjunct2, THEN conjunct2, THEN conjunct2, THEN conjunct2, THEN conjunct2, THEN conjunct2, THEN conjunct2, THEN conjunct2, THEN conjunct2, THEN conjunct1, THEN mp,
      OF conjI [OF sample_world_answers conjI [OF sample_body_messages sample_messages_decode]]] .
  from 1 2 3 4 5 show ?thesis
    by (simp add: sample_messages_decoded user_of_dict dict_get_def)
qed

section \<open>Decoding and writing back\<close>

lemma Group_import_returns_scalars:
  assumes "snd (Group_import_from_api g (PDict kvs)) = None"
  shows "group_id (fst (Group_import_from_api g (PDict kvs))) = dict_get kvs ''id'' \<and>
         group_slug (fst (Group_import_from_api g (PDict kvs))) = dict_get kvs ''slug'' \<and>
         group_name (fst (Group_import_from_api g (PDict kvs))) = dict_get kvs ''name'' \<and>
         group_members_count (fst (Group_import_from_api g (PDict kvs))) = dict_get kvs ''members_count'' \<and>
         group_topics_count (fst (Group_import_from_api g (PDict kvs))) = dict_get kvs ''topics_count''"
proof -
  from assms obtain t1 where t1: "utcfromtimestamp (dict_get kvs ''date_latest_message'') = Inr t1"
    by (cases "utcfromtimestamp (dict_get kvs ''date_latest_message'')")
      (simp_all add: Group_import_bad_latest)
  from assms t1 obtain t2 where t2: "utcfromtimestamp (dict_get kvs ''date_created'') = Inr t2"
    by (cases "utcfromtimestamp (dict_get kvs ''date_created'')")
      (simp_all add: Group_import_bad_created)
  from Group_import_late_fields [OF t1 t2, of g] Group_import_early_scalars [of g kvs]
  show ?thesis by simp
qed

text \<open>
  C9. When decoding a group mapping returns, writing the Group back to a mapping gives,
  under each of \<open>id\<close>, \<open>slug\<close>, \<open>name\<close>, \<open>members_count\<close> and \<open>topics_count\<close>, the
  value the input had there (\<open>None\<close> for a key the input lacked); for a key the input
  has, the two mappings agree at it. The serializer is the one modelled from the
  specification.
\<close>

theorem group_round_trip:
  "snd (Group_import_from_api g (PDict kvs)) = None \<longrightarrow>
   (\<forall>k\<in>set [''id'', ''slug'', ''name'', ''members_count'', ''topics_count''].
      map_of (Group_to_mapping (fst (Group_import_from_api g (PDict kvs)))) k = Some (dict_get kvs k) \<and>
      (map_of kvs k \<noteq> None \<longrightarrow>
       map_of (Group_to_mapping (fst (Group_import_from_api g (PDict kvs)))) k = map_of kvs k))"
proof
  assume "snd (Group_import_from_api g (PDict kvs)) = None"
  from Group_import_returns_scalars [OF this]
  show "\<forall>k\<in>set [''id'', ''slug'', ''name'', ''members_count'', ''topics_count''].
      map_of (Group_to_mapping (fst (Group_import_from_api g (PDict kvs)))) k = Some (dict_get kvs k) \<and>
      (map_of kvs k \<noteq> None \<longrightarrow>
       map_of (Group_to_mapping (fst (Group_import_from_api g (PDict kvs)))) k = map_of kvs k)"
    by (auto simp: Group_to_mapping_def dict_get_def)
qed

text \<open>The five fields of the sample group survive the round trip.\<close>

theorem group_round_trip_witness:
  "map_of (Group_to_mapping (fst (Group_import_from_api Group_init (PDict sample_group)))) ''id'' =
     Some (PInt 3) \<and>
   map_of (Group_to_mapping (fst (Group_import_from_api Group_init (PDict sample_group)))) ''slug'' =
     Some (PStr ''lobby'') \<and>
   map_of (Group_to_mapping (fst (Group_import_from_api Group_init (PDict sample_group)))) ''name'' =
     Some (PStr ''Lobby'') \<and>
   map_of (Group_to_mapping (fst (Group_import_from_api Group_init (PDict sample_group)))) ''members_count'' =
     Some (PInt 12) \<and>
   map_of (Group_to_mapping (fst (Group_import_from_api Group_init (PDict sample_group)))) ''topics_count'' =
     Some (PInt 4)"
  using group_round_trip [of Group_init sample_group, THEN mp, OF sample_group_returns]
  by (simp add: sample_group_lookups)

section \<open>Further facts about the model\<close>

lemma resource_url_examples:
  "resource_url [SegStr ''groups''] = ''https://convore.com/api/groups.json''"
  "resource_url [SegStr ''accounts'', SegStr ''verify''] = ''https://convore.com/api/accounts/verify.json''"
  "resource_url [SegStr ''groups'', SegInt 1520, SegStr ''members''] =
     ''https://convore.com/api/groups/1520/members.json''"
  by code_simp+

lemma login_binds_auth: "auth (login u p w) = Some (PTuple [u, p])"
  by (simp add: login_def)

lemma get_before_login: "auth w = None \<Longrightarrow> get w path kwargs = Inl NameError"
  by (simp add: get_def)

lemma from_epoch_seconds_clock:
  assumes "from_epoch_seconds t = Inr dt"
  shows "0 \<le> hour dt \<and> hour dt < 24 \<and> 0 \<le> minute dt \<and> minute dt < 60 \<and>
         0 \<le> second dt \<and> second dt < 60 \<and> microsecond dt = 0 \<and>
         1 \<le> year dt \<and> year dt \<le> 9999"
proof -
  obtain y m d where c: "civil_from_days (t div 86400) = (y, m, d)"
    by (cases "civil_from_days (t div 86400)")
  define s where "s = t mod 86400"
  have s: "0 \<le> s" "s < 86400" by (simp_all add: s_def)
  have f: "from_epoch_seconds t =
      (if y < 1 \<or> 9999 < y then Inl ValueError
       else Inr \<lparr>year = y, month = m, day = d, hour = s div 3600,
                 minute = (s mod 3600) div 60, second = s mod 60, microsecond = 0\<rparr>)"
    unfolding from_epoch_seconds_def c s_def by (simp only: Let_def prod.case)
  from assms have y: "1 \<le> y" "y \<le> 9999"
    and dt: "dt = \<lparr>year = y, month = m, day = d, hour = s div 3600,
                 minute = (s mod 3600) div 60, second = s mod 60, microsecond = 0\<rparr>"
    unfolding f by (simp_all split: if_splits)
  have h: "0 \<le> s div 3600" "s div 3600 < 24" using s by simp_all
  have mi: "0 \<le> (s mod 3600) div 60" "(s mod 3600) div 60 < 60" by simp_all
  have se: "0 \<le> s mod 60" "s mod 60 < 60" by simp_all
  show ?thesis unfolding dt using y h mi se by simp
qed

end
